theory Spec2Isabelle
  imports Main "HOL-Library.Word"
begin

section \<open>Values shared by the transaction commands of \<^verbatim>\<open>x/wasm/client/cli/tx.go\<close>\<close>

text \<open>
  A Go \<^verbatim>\<open>string\<close> is a sequence of bytes and so is a \<^verbatim>\<open>[]byte\<close>; the conversion
  \<^verbatim>\<open>[]byte(s)\<close> copies the bytes unchanged. Both are lists of 8-bit characters here, and a
  \<^verbatim>\<open>nil\<close> slice and an empty slice are the same empty list.
\<close>

type_synonym bytes = "char list"

text \<open>
  Errors produced outside this file (the Go standard library, the flag library, the SDK and
  the other packages of the module). The constructors of the standard library's decoders are
  listed one by one; every other callee error is carried by its text.
\<close>

datatype strconv_reason = ErrSyntax | ErrRange

datatype callee_error =
    HexErrLength
  | HexInvalidByte char
  | NumError string string strconv_reason
  | FlagNotDefined string
  | FlagWrongType string string
  | ExactArgsError nat nat
  | MinimumNArgsError nat nat
  | Other string

text \<open>
  Errors as this file builds them: \<^verbatim>\<open>errors.New(text)\<close>, \<^verbatim>\<open>fmt.Errorf(format, operands...)\<close>
  with the format string and the operands kept as written, and an error of a callee
  returned unchanged (\<^verbatim>\<open>return err\<close>).
\<close>

datatype operand = S string | Q string | E callee_error

datatype error =
    New string
  | Errorf string "operand list"
  | Callee callee_error

section \<open>Standard library and flag library\<close>

text \<open>
  \<^verbatim>\<open>strings.Split(s, sep)\<close> for a separator of one byte: the substrings between the
  occurrences of the separator, one more than there are occurrences; the empty string
  gives one empty substring.
\<close>

fun strings_Split :: "string \<Rightarrow> char \<Rightarrow> string list" where
  "strings_Split [] sep = [[]]"
| "strings_Split (c # cs) sep =
     (if c = sep then [] # strings_Split cs sep
      else (c # hd (strings_Split cs sep)) # tl (strings_Split cs sep))"

text \<open>
  \<^verbatim>\<open>strconv.ParseBool\<close>: six spellings of true, six of false, a syntax error for
  everything else (the empty string included).
\<close>

definition strconv_ParseBool :: "string \<Rightarrow> callee_error + bool" where
  "strconv_ParseBool str =
     (if str \<in> set [''1'', ''t'', ''T'', ''TRUE'', ''true'', ''True''] then Inr True
      else if str \<in> set [''0'', ''f'', ''F'', ''FALSE'', ''false'', ''False''] then Inr False
      else Inl (NumError ''ParseBool'' str ErrSyntax))"

text \<open>
  \<^verbatim>\<open>strconv.ParseUint(s, 10, 64)\<close>: the empty string and any byte that is not a decimal
  digit are syntax errors; a value above \<open>2^64 - 1\<close> is a range error, reported at the digit
  where the running value first exceeds the bound.
\<close>

fun strconv_ParseUint_loop :: "string \<Rightarrow> nat \<Rightarrow> string \<Rightarrow> callee_error + 64 word" where
  "strconv_ParseUint_loop s0 n [] = Inr (word_of_nat n)"
| "strconv_ParseUint_loop s0 n (c # cs) =
     (if \<not> (48 \<le> (of_char c :: nat) \<and> (of_char c :: nat) \<le> 57)
      then Inl (NumError ''ParseUint'' s0 ErrSyntax)
      else if n * 10 + (of_char c - 48) > 2 ^ 64 - 1
      then Inl (NumError ''ParseUint'' s0 ErrRange)
      else strconv_ParseUint_loop s0 (n * 10 + (of_char c - 48)) cs)"

definition strconv_ParseUint :: "string \<Rightarrow> callee_error + 64 word" where
  "strconv_ParseUint s =
     (if s = [] then Inl (NumError ''ParseUint'' s ErrSyntax)
      else strconv_ParseUint_loop s 0 s)"

text \<open>
  \<^verbatim>\<open>hex.DecodeString\<close>: two hexadecimal digits per byte. A byte that is not a
  hexadecimal digit is reported first; a string of odd length whose digits are all valid
  ends in \<^verbatim>\<open>ErrLength\<close>.
\<close>

definition fromHexChar :: "char \<Rightarrow> nat option" where
  "fromHexChar c =
     (let n = (of_char c :: nat) in
      if 48 \<le> n \<and> n \<le> 57 then Some (n - 48)
      else if 97 \<le> n \<and> n \<le> 102 then Some (n - 97 + 10)
      else if 65 \<le> n \<and> n \<le> 70 then Some (n - 65 + 10)
      else None)"

fun hex_DecodeString :: "string \<Rightarrow> callee_error + bytes" where
  "hex_DecodeString [] = Inr []"
| "hex_DecodeString [p] =
     (case fromHexChar p of None \<Rightarrow> Inl (HexInvalidByte p) | Some a \<Rightarrow> Inl HexErrLength)"
| "hex_DecodeString (p # q # rest) =
     (case fromHexChar p of
        None \<Rightarrow> Inl (HexInvalidByte p)
      | Some a \<Rightarrow>
          (case fromHexChar q of
             None \<Rightarrow> Inl (HexInvalidByte q)
           | Some b \<Rightarrow>
               (case hex_DecodeString rest of
                  Inl err \<Rightarrow> Inl err
                | Inr dst \<Rightarrow> Inr (char_of (a * 16 + b) # dst))))"

text \<open>
  The flag set of \<^verbatim>\<open>github.com/spf13/pflag\<close>: every registered flag has a name, a type
  and a current value (its default until the command line sets it). A typed getter fails
  when the flag is not registered and when it is registered with another type. An
  \<^verbatim>\<open>int64\<close> is the 64-bit word of its two's complement bits and a \<^verbatim>\<open>uint64\<close> the word of
  its value; the source only compares them with zero and passes them on.
\<close>

datatype flag_value =
    FString string
  | FStringSlice "string list"
  | FBool bool
  | FUint64 "64 word"
  | FInt64 "64 word"

type_synonym FlagSet = "string \<rightharpoonup> flag_value"

fun flag_Type :: "flag_value \<Rightarrow> string" where
  "flag_Type (FString v) = ''string''"
| "flag_Type (FStringSlice v) = ''stringSlice''"
| "flag_Type (FBool v) = ''bool''"
| "flag_Type (FUint64 v) = ''uint64''"
| "flag_Type (FInt64 v) = ''int64''"

definition GetString :: "FlagSet \<Rightarrow> string \<Rightarrow> callee_error + string" where
  "GetString flags name =
     (case flags name of
        None \<Rightarrow> Inl (FlagNotDefined name)
      | Some (FString v) \<Rightarrow> Inr v
      | Some f \<Rightarrow> Inl (FlagWrongType ''string'' (flag_Type f)))"

definition GetStringSlice :: "FlagSet \<Rightarrow> string \<Rightarrow> callee_error + string list" where
  "GetStringSlice flags name =
     (case flags name of
        None \<Rightarrow> Inl (FlagNotDefined name)
      | Some (FStringSlice v) \<Rightarrow> Inr v
      | Some f \<Rightarrow> Inl (FlagWrongType ''stringSlice'' (flag_Type f)))"

definition GetBool :: "FlagSet \<Rightarrow> string \<Rightarrow> callee_error + bool" where
  "GetBool flags name =
     (case flags name of
        None \<Rightarrow> Inl (FlagNotDefined name)
      | Some (FBool v) \<Rightarrow> Inr v
      | Some f \<Rightarrow> Inl (FlagWrongType ''bool'' (flag_Type f)))"

definition GetUint64 :: "FlagSet \<Rightarrow> string \<Rightarrow> callee_error + 64 word" where
  "GetUint64 flags name =
     (case flags name of
        None \<Rightarrow> Inl (FlagNotDefined name)
      | Some (FUint64 v) \<Rightarrow> Inr v
      | Some f \<Rightarrow> Inl (FlagWrongType ''uint64'' (flag_Type f)))"

definition GetInt64 :: "FlagSet \<Rightarrow> string \<Rightarrow> callee_error + 64 word" where
  "GetInt64 flags name =
     (case flags name of
        None \<Rightarrow> Inl (FlagNotDefined name)
      | Some (FInt64 v) \<Rightarrow> Inr v
      | Some f \<Rightarrow> Inl (FlagWrongType ''int64'' (flag_Type f)))"

text \<open>The flag names of the \<^verbatim>\<open>const\<close> block that the modelled functions use.\<close>

abbreviation flagAmount :: string where "flagAmount \<equiv> ''amount''"
abbreviation flagLabel :: string where "flagLabel \<equiv> ''label''"
abbreviation flagAdmin :: string where "flagAdmin \<equiv> ''admin''"
abbreviation flagNoAdmin :: string where "flagNoAdmin \<equiv> ''no-admin''"
abbreviation flagFixMsg :: string where "flagFixMsg \<equiv> ''fix-msg''"
abbreviation flagInstantiateByEverybody :: string where
  "flagInstantiateByEverybody \<equiv> ''instantiate-everybody''"
abbreviation flagInstantiateNobody :: string where
  "flagInstantiateNobody \<equiv> ''instantiate-nobody''"
abbreviation flagInstantiateByAddress :: string where
  "flagInstantiateByAddress \<equiv> ''instantiate-only-address''"
abbreviation flagInstantiateByAnyOfAddress :: string where
  "flagInstantiateByAnyOfAddress \<equiv> ''instantiate-anyof-addresses''"
abbreviation flagAllowedMsgKeys :: string where "flagAllowedMsgKeys \<equiv> ''allow-msg-keys''"
abbreviation flagAllowedRawMsgs :: string where "flagAllowedRawMsgs \<equiv> ''allow-raw-msgs''"
abbreviation flagExpiration :: string where "flagExpiration \<equiv> ''expiration''"
abbreviation flagMaxCalls :: string where "flagMaxCalls \<equiv> ''max-calls''"
abbreviation flagMaxFunds :: string where "flagMaxFunds \<equiv> ''max-funds''"
abbreviation flagAllowAllMsgs :: string where "flagAllowAllMsgs \<equiv> ''allow-all-messages''"
abbreviation flagNoTokenTransfer :: string where "flagNoTokenTransfer \<equiv> ''no-token-transfer''"

section \<open>Messages, authorizations and the collaborators\<close>

text \<open>
  \<^verbatim>\<open>sdk.AccAddress\<close> is a byte slice; \<^verbatim>\<open>sdk.Coins\<close> is a slice of coins, each a
  denomination and an unbounded integer amount; \<^verbatim>\<open>time.Unix(sec, nsec)\<close> is kept as the
  pair it is built from.
\<close>

type_synonym AccAddress = bytes

record Coin =
  Denom :: string
  Amount :: int

type_synonym Coins = "Coin list"

datatype Time = time_Unix "64 word" "64 word"

text \<open>
  Modelled from the spec: the types and constructors of package \<^verbatim>\<open>types\<close>, which is not
  among the sources. The spec's data model gives the code-upload permission as the tagged
  variant Nobody, Everybody, AnyOfAddresses(addresses); the limit as MaxCalls(count),
  MaxFunds(coins), Combined(count, coins); the filter as AllowAll, AcceptedKeys(keys),
  AcceptedRawMessages(blobs); the code grant as a code hash with an optional permission;
  the contract grant as contract, limit and filter; and the grant as wrapped into an
  execution or a migration authorization, or a store-code authorization over a list of
  code grants. Each constructor below carries the name of the Go expression that the
  source calls to build the value.
\<close>

datatype AccessConfig =
    AllowNobody
  | AllowEverybody
  | AccessTypeAnyOfAddresses_With "AccAddress list"

record CodeGrant =
  CodeHash :: bytes
  InstantiatePermission :: "AccessConfig option"

datatype ContractAuthzLimitX =
    NewMaxCallsLimit "64 word"
  | NewMaxFundsLimit Coins
  | NewCombinedLimit "64 word" Coins

datatype ContractAuthzFilterX =
    NewAllowAllMessagesFilter
  | NewAcceptedMessageKeysFilter "string list"
  | NewAcceptedMessagesFilter "bytes list"

datatype ContractGrant = ContractGrant AccAddress ContractAuthzLimitX ContractAuthzFilterX

datatype Authorization =
    NewContractExecutionAuthorization ContractGrant
  | NewContractMigrationAuthorization ContractGrant
  | NewStoreCodeAuthorization "CodeGrant list"

text \<open>
  The messages handed to the signing and broadcast service (\<^verbatim>\<open>sdk.Msg\<close>), with the
  fields the source sets, in this order:
  \<^verbatim>\<open>MsgInstantiateContract{Sender, Admin, CodeID, Label, Msg, Funds}\<close>,
  \<^verbatim>\<open>MsgInstantiateContract2{Sender, Admin, CodeID, Label, Msg, Funds, Salt, FixMsg}\<close>,
  \<^verbatim>\<open>MsgExecuteContract{Sender, Contract, Msg, Funds}\<close> and the
  \<^verbatim>\<open>authz.MsgGrant\<close> of granter, grantee, authorization and optional expiration.
\<close>

datatype sdk_Msg =
    MsgInstantiateContract
      (Sender: string) (Admin: string) (CodeID: "64 word") (Label: string)
      (Msg: bytes) (Funds: Coins)
  | MsgInstantiateContract2
      (Sender: string) (Admin: string) (CodeID: "64 word") (Label: string)
      (Msg: bytes) (Funds: Coins) (Salt: bytes) (FixMsg: bool)
  | MsgExecuteContract
      (Sender: string) (Contract: string) (Msg: bytes) (Funds: Coins)
  | MsgGrant
      (Granter: AccAddress) (Grantee: AccAddress) (Grant: Authorization)
      (Expiration: "Time option")

text \<open>
  A keyring record answers \<^verbatim>\<open>GetAddress()\<close> with an address or an error; the client
  context gives the sender's address and the keyring, whose \<^verbatim>\<open>Key(name)\<close> looks a
  record up by name.
\<close>

datatype Record = Record (GetAddress: "callee_error + AccAddress")

record Context =
  GetFromAddress :: AccAddress
  Keyring :: "string \<Rightarrow> callee_error + Record"

text \<open>
  The functions the source calls in other packages and in files of this package that are
  not among the sources. They are parameters: nothing is assumed about what they return.
  \<^verbatim>\<open>ValidateBasic\<close> and \<^verbatim>\<open>GenerateOrBroadcastTxCLI\<close> return an error or
  \<^verbatim>\<open>nil\<close> (\<open>None\<close>).
\<close>

record Env =
  AccAddressFromBech32 :: "string \<Rightarrow> callee_error + AccAddress"
  AccAddress_String :: "AccAddress \<Rightarrow> string"
  ParseCoinsNormalized :: "string \<Rightarrow> callee_error + Coins"
  ValidateBasic :: "sdk_Msg \<Rightarrow> callee_error option"
  NewContractGrant ::
    "AccAddress \<Rightarrow> ContractAuthzLimitX \<Rightarrow> ContractAuthzFilterX \<Rightarrow> callee_error + ContractGrant"
  NewMsgGrant ::
    "AccAddress \<Rightarrow> AccAddress \<Rightarrow> Authorization \<Rightarrow> Time option \<Rightarrow> callee_error + sdk_Msg"
  GenerateOrBroadcastTxCLI :: "Context \<Rightarrow> FlagSet \<Rightarrow> sdk_Msg \<Rightarrow> callee_error option"
  parseAccessConfig :: "string \<Rightarrow> error + AccessConfig"

section \<open>The permission encoder: \<^verbatim>\<open>parseAccessConfigFlags\<close>\<close>

text \<open>
  The loop over the \<^verbatim>\<open>instantiate-anyof-addresses\<close> entries: \<^verbatim>\<open>acceptedAddrs\<close> is
  allocated with one (empty) address per entry, entry \<^verbatim>\<open>i\<close> is assigned the parsed
  address, and the first entry that does not parse returns
  \<^verbatim>\<open>fmt.Errorf("parse %q: %w", v, err)\<close>.
\<close>

fun parseAccessConfigFlags_loop ::
  "Env \<Rightarrow> nat \<Rightarrow> string list \<Rightarrow> AccAddress list \<Rightarrow> error + AccAddress list" where
  "parseAccessConfigFlags_loop env i [] acceptedAddrs = Inr acceptedAddrs"
| "parseAccessConfigFlags_loop env i (v # vs) acceptedAddrs =
     (case AccAddressFromBech32 env v of
        Inl err \<Rightarrow> Inl (Errorf ''parse %q: %w'' [Q v, E err])
      | Inr addr \<Rightarrow> parseAccessConfigFlags_loop env (Suc i) vs (acceptedAddrs[i := addr]))"

definition parseAccessConfigFlags :: "Env \<Rightarrow> FlagSet \<Rightarrow> error + AccessConfig option" where
  "parseAccessConfigFlags env flags =
     (case GetStringSlice flags flagInstantiateByAnyOfAddress of
        Inl err \<Rightarrow> Inl (Errorf ''flag any of: %s'' [E err])
      | Inr addrs \<Rightarrow>
     if length addrs \<noteq> 0 then
       (case parseAccessConfigFlags_loop env 0 addrs (replicate (length addrs) []) of
          Inl err \<Rightarrow> Inl err
        | Inr acceptedAddrs \<Rightarrow> Inr (Some (AccessTypeAnyOfAddresses_With acceptedAddrs)))
     else
     (case GetString flags flagInstantiateByAddress of
        Inl err \<Rightarrow> Inl (Errorf ''instantiate by address: %s'' [E err])
      | Inr onlyAddrStr \<Rightarrow>
     if onlyAddrStr \<noteq> '''' then
       Inl (Errorf ''not supported anymore. Use: %s'' [S flagInstantiateByAnyOfAddress])
     else
     (case GetString flags flagInstantiateByEverybody of
        Inl err \<Rightarrow> Inl (Errorf ''instantiate by everybody: %s'' [E err])
      | Inr everybodyStr \<Rightarrow>
     (case (if everybodyStr \<noteq> '''' then strconv_ParseBool everybodyStr else Inr False) of
        Inl err \<Rightarrow>
          Inl (Errorf ''boolean value expected for instantiate by everybody: %s'' [E err])
      | Inr ok \<Rightarrow>
     if ok then Inr (Some AllowEverybody)
     else
     (case GetString flags flagInstantiateNobody of
        Inl err \<Rightarrow> Inl (Errorf ''instantiate by nobody: %s'' [E err])
      | Inr nobodyStr \<Rightarrow>
     (case (if nobodyStr \<noteq> '''' then strconv_ParseBool nobodyStr else Inr False) of
        Inl err \<Rightarrow>
          Inl (Errorf ''boolean value expected for instantiate by nobody: %s'' [E err])
      | Inr ok \<Rightarrow>
     if ok then Inr (Some AllowNobody)
     else Inr None))))))"

section \<open>The instantiate request builder: \<^verbatim>\<open>parseInstantiateArgs\<close>\<close>

text \<open>
  The function ends in \<^verbatim>\<open>return &msg, msg.ValidateBasic()\<close>: it returns the message
  together with the result of its validation. Its callers use the message only when that
  error is \<^verbatim>\<open>nil\<close>, so the result here is the validation error or the message.
\<close>

definition return_ValidateBasic :: "Env \<Rightarrow> sdk_Msg \<Rightarrow> error + sdk_Msg" where
  "return_ValidateBasic env msg =
     (case ValidateBasic env msg of
        Some err \<Rightarrow> Inl (Callee err)
      | None \<Rightarrow> Inr msg)"

definition parseInstantiateArgs ::
  "Env \<Rightarrow> string \<Rightarrow> string \<Rightarrow> (string \<Rightarrow> callee_error + Record) \<Rightarrow> string \<Rightarrow> FlagSet
    \<Rightarrow> error + sdk_Msg" where
  "parseInstantiateArgs env rawCodeID initMsg kr sender flags =
     (case strconv_ParseUint rawCodeID of
        Inl err \<Rightarrow> Inl (Callee err)
      | Inr codeID \<Rightarrow>
     (case GetString flags flagAmount of
        Inl err \<Rightarrow> Inl (Errorf ''amount: %s'' [E err])
      | Inr amountStr \<Rightarrow>
     (case ParseCoinsNormalized env amountStr of
        Inl err \<Rightarrow> Inl (Errorf ''amount: %s'' [E err])
      | Inr amount \<Rightarrow>
     (case GetString flags flagLabel of
        Inl err \<Rightarrow> Inl (Errorf ''label: %s'' [E err])
      | Inr label \<Rightarrow>
     if label = '''' then Inl (New ''label is required on all contracts'')
     else
     (case GetString flags flagAdmin of
        Inl err \<Rightarrow> Inl (Errorf ''admin: %s'' [E err])
      | Inr adminStr \<Rightarrow>
     (case GetBool flags flagNoAdmin of
        Inl err \<Rightarrow> Inl (Errorf ''no-admin: %s'' [E err])
      | Inr noAdmin \<Rightarrow>
     if adminStr = '''' \<and> \<not> noAdmin then
       Inl (New ''you must set an admin or explicitly pass --no-admin to make it immutable (wasmd issue #719)'')
     else if adminStr \<noteq> '''' \<and> noAdmin then
       Inl (New ''you set an admin and passed --no-admin, those cannot both be true'')
     else
     (case (if adminStr \<noteq> '''' then
             (case AccAddressFromBech32 env adminStr of
                Inl err0 \<Rightarrow>
                  (case kr adminStr of
                     Inl err \<Rightarrow> Inl (Errorf ''admin %s'' [E err])
                   | Inr info \<Rightarrow>
                       (case GetAddress info of
                          Inl err \<Rightarrow> Inl (Callee err)
                        | Inr admin \<Rightarrow> Inr (AccAddress_String env admin)))
              | Inr addr \<Rightarrow> Inr (AccAddress_String env addr))
           else Inr adminStr) of
        Inl err \<Rightarrow> Inl err
      | Inr adminStr \<Rightarrow>
     let msg = MsgInstantiateContract sender adminStr codeID label initMsg amount in
     return_ValidateBasic env msg)))))))"

section \<open>The deterministic-address builder: \<^verbatim>\<open>InstantiateContract2Cmd\<close>\<close>

text \<open>
  A command is run by the command library: the argument-count validator of its
  \<^verbatim>\<open>Args\<close> field first, then \<^verbatim>\<open>RunE\<close> on the arguments and the parsed flags. The client
  context is read from the command by \<^verbatim>\<open>client.GetClientTxContext\<close>; its result is an
  input here. The result is the error of the command, or the message that
  \<^verbatim>\<open>tx.GenerateOrBroadcastTxCLI\<close> accepted when the command returns \<^verbatim>\<open>nil\<close>.

  The salt decoder of \<^verbatim>\<open>InstantiateContract2Cmd\<close> is built by
  \<^verbatim>\<open>newArgDecoder(hex.DecodeString)\<close>, a function of the package that is not among the
  sources; the \<^verbatim>\<open>DecodeString\<close> of the decoder is a parameter.
\<close>

definition InstantiateContract2Cmd_RunE ::
  "Env \<Rightarrow> (string \<Rightarrow> callee_error + bytes) \<Rightarrow> callee_error + Context \<Rightarrow> string list \<Rightarrow> FlagSet
    \<Rightarrow> error + sdk_Msg" where
  "InstantiateContract2Cmd_RunE env decoder GetClientTxContext args flags =
     (if length args \<noteq> 3 then Inl (Callee (ExactArgsError 3 (length args)))
      else
      (case GetClientTxContext of
        Inl err \<Rightarrow> Inl (Callee err)
      | Inr clientCtx \<Rightarrow>
      (case decoder (args ! 2) of
        Inl err \<Rightarrow> Inl (Errorf ''salt: %w'' [E err])
      | Inr salt \<Rightarrow>
      (case GetBool flags flagFixMsg of
        Inl err \<Rightarrow> Inl (Errorf ''fix msg: %w'' [E err])
      | Inr fixMsg \<Rightarrow>
      (case parseInstantiateArgs env (args ! 0) (args ! 1) (Keyring clientCtx)
             (AccAddress_String env (GetFromAddress clientCtx)) flags of
        Inl err \<Rightarrow> Inl err
      | Inr data \<Rightarrow>
      let msg = MsgInstantiateContract2 (Sender data) (Admin data) (CodeID data) (Label data)
                  (Msg data) (Funds data) salt fixMsg in
      (case GenerateOrBroadcastTxCLI env clientCtx flags msg of
        Some err \<Rightarrow> Inl (Callee err)
      | None \<Rightarrow> Inr msg))))))"

section \<open>The execute request builder: \<^verbatim>\<open>parseExecuteArgs\<close>\<close>

definition parseExecuteArgs ::
  "Env \<Rightarrow> string \<Rightarrow> string \<Rightarrow> AccAddress \<Rightarrow> FlagSet \<Rightarrow> error + sdk_Msg" where
  "parseExecuteArgs env contractAddr execMsg sender flags =
     (case GetString flags flagAmount of
        Inl err \<Rightarrow> Inl (Errorf ''amount: %s'' [E err])
      | Inr amountStr \<Rightarrow>
     (case ParseCoinsNormalized env amountStr of
        Inl err \<Rightarrow> Inl (Callee err)
      | Inr amount \<Rightarrow>
     Inr (MsgExecuteContract (AccAddress_String env sender) contractAddr execMsg amount)))"

section \<open>The grant commands\<close>

definition getExpireTime :: "FlagSet \<Rightarrow> error + Time option" where
  "getExpireTime flags =
     (case GetInt64 flags flagExpiration of
        Inl err \<Rightarrow> Inl (Callee err)
      | Inr exp \<Rightarrow>
     if exp = 0 then Inr None
     else Inr (Some (time_Unix exp 0)))"

text \<open>
  The first \<^verbatim>\<open>switch\<close> of \<^verbatim>\<open>GrantAuthorizationCmd\<close>: the value of \<^verbatim>\<open>limit\<close>, or the
  error the command returns from inside the switch.
\<close>

definition GrantAuthorizationCmd_limit ::
  "Env \<Rightarrow> string \<Rightarrow> 64 word \<Rightarrow> bool \<Rightarrow> error + ContractAuthzLimitX" where
  "GrantAuthorizationCmd_limit env maxFundsStr maxCalls noTokenTransfer =
     (if maxFundsStr \<noteq> '''' \<and> maxCalls \<noteq> 0 \<and> \<not> noTokenTransfer then
        (case ParseCoinsNormalized env maxFundsStr of
           Inl err \<Rightarrow> Inl (Errorf ''max funds: %s'' [E err])
         | Inr maxFunds \<Rightarrow> Inr (NewCombinedLimit maxCalls maxFunds))
      else if maxFundsStr \<noteq> '''' \<and> maxCalls = 0 \<and> \<not> noTokenTransfer then
        (case ParseCoinsNormalized env maxFundsStr of
           Inl err \<Rightarrow> Inl (Errorf ''max funds: %s'' [E err])
         | Inr maxFunds \<Rightarrow> Inr (NewMaxFundsLimit maxFunds))
      else if maxCalls \<noteq> 0 \<and> noTokenTransfer \<and> maxFundsStr = '''' then
        Inr (NewMaxCallsLimit maxCalls)
      else Inl (New ''invalid limit setup''))"

text \<open>
  The second \<^verbatim>\<open>switch\<close>: the value of \<^verbatim>\<open>filter\<close>, or the error returned from inside
  the switch. The raw messages are converted one by one into a slice allocated with one
  entry per message.
\<close>

fun GrantAuthorizationCmd_msgs :: "nat \<Rightarrow> string list \<Rightarrow> bytes list \<Rightarrow> bytes list" where
  "GrantAuthorizationCmd_msgs i [] msgs = msgs"
| "GrantAuthorizationCmd_msgs i (msg # rest) msgs =
     GrantAuthorizationCmd_msgs (Suc i) rest (msgs[i := msg])"

definition GrantAuthorizationCmd_filter ::
  "bool \<Rightarrow> string list \<Rightarrow> string list \<Rightarrow> error + ContractAuthzFilterX" where
  "GrantAuthorizationCmd_filter allowAllMsgs msgKeys rawMsgs =
     (if allowAllMsgs \<and> length msgKeys \<noteq> 0 \<or> allowAllMsgs \<and> length rawMsgs \<noteq> 0
         \<or> length msgKeys \<noteq> 0 \<and> length rawMsgs \<noteq> 0 then
        Inl (New ''cannot set more than one filter within one grant'')
      else if allowAllMsgs then Inr NewAllowAllMessagesFilter
      else if length msgKeys \<noteq> 0 then Inr (NewAcceptedMessageKeysFilter msgKeys)
      else if length rawMsgs \<noteq> 0 then
        Inr (NewAcceptedMessagesFilter
               (GrantAuthorizationCmd_msgs 0 rawMsgs (replicate (length rawMsgs) [])))
      else Inl (New ''invalid filter setup''))"

text \<open>
  The rest of the command once \<^verbatim>\<open>limit\<close> and \<^verbatim>\<open>filter\<close> are set: the grant, the
  authorization chosen by the second argument, the expiration time, the grant message and
  its broadcast.
\<close>

definition GrantAuthorizationCmd_grant ::
  "Env \<Rightarrow> Context \<Rightarrow> FlagSet \<Rightarrow> string list \<Rightarrow> AccAddress \<Rightarrow> AccAddress
    \<Rightarrow> ContractAuthzLimitX \<Rightarrow> ContractAuthzFilterX \<Rightarrow> error + sdk_Msg" where
  "GrantAuthorizationCmd_grant env clientCtx flags args grantee contract limit filter_x =
     (case NewContractGrant env contract limit filter_x of
        Inl err \<Rightarrow> Inl (Callee err)
      | Inr grant \<Rightarrow>
      (case (if args ! 1 = ''execution'' then Inr (NewContractExecutionAuthorization grant)
            else if args ! 1 = ''migration'' then Inr (NewContractMigrationAuthorization grant)
            else Inl (Errorf ''%s authorization type not supported'' [S (args ! 1)])) of
        Inl err \<Rightarrow> Inl err
      | Inr authorization \<Rightarrow>
      (case getExpireTime flags of
        Inl err \<Rightarrow> Inl err
      | Inr expire \<Rightarrow>
      (case NewMsgGrant env (GetFromAddress clientCtx) grantee authorization expire of
        Inl err \<Rightarrow> Inl (Callee err)
      | Inr grantMsg \<Rightarrow>
      (case GenerateOrBroadcastTxCLI env clientCtx flags grantMsg of
        Some err \<Rightarrow> Inl (Callee err)
      | None \<Rightarrow> Inr grantMsg)))))"

definition GrantAuthorizationCmd ::
  "Env \<Rightarrow> callee_error + Context \<Rightarrow> string list \<Rightarrow> FlagSet \<Rightarrow> error + sdk_Msg" where
  "GrantAuthorizationCmd env GetClientTxContext args flags =
     (if length args \<noteq> 3 then Inl (Callee (ExactArgsError 3 (length args)))
      else
      (case GetClientTxContext of
        Inl err \<Rightarrow> Inl (Callee err)
      | Inr clientCtx \<Rightarrow>
      (case AccAddressFromBech32 env (args ! 0) of
        Inl err \<Rightarrow> Inl (Callee err)
      | Inr grantee \<Rightarrow>
      (case AccAddressFromBech32 env (args ! 2) of
        Inl err \<Rightarrow> Inl (Callee err)
      | Inr contract \<Rightarrow>
      (case GetStringSlice flags flagAllowedMsgKeys of
        Inl err \<Rightarrow> Inl (Callee err)
      | Inr msgKeys \<Rightarrow>
      (case GetStringSlice flags flagAllowedRawMsgs of
        Inl err \<Rightarrow> Inl (Callee err)
      | Inr rawMsgs \<Rightarrow>
      (case GetString flags flagMaxFunds of
        Inl err \<Rightarrow> Inl (Errorf ''max funds: %s'' [E err])
      | Inr maxFundsStr \<Rightarrow>
      (case GetUint64 flags flagMaxCalls of
        Inl err \<Rightarrow> Inl (Callee err)
      | Inr maxCalls \<Rightarrow>
      (case GetInt64 flags flagExpiration of
        Inl err \<Rightarrow> Inl (Callee err)
      | Inr exp \<Rightarrow>
      if exp = 0 then Inl (New ''expiration must be set'')
      else
      (case GetBool flags flagAllowAllMsgs of
        Inl err \<Rightarrow> Inl (Callee err)
      | Inr allowAllMsgs \<Rightarrow>
      (case GetBool flags flagNoTokenTransfer of
        Inl err \<Rightarrow> Inl (Callee err)
      | Inr noTokenTransfer \<Rightarrow>
      (case GrantAuthorizationCmd_limit env maxFundsStr maxCalls noTokenTransfer of
        Inl err \<Rightarrow> Inl err
      | Inr limit \<Rightarrow>
      (case GrantAuthorizationCmd_filter allowAllMsgs msgKeys rawMsgs of
        Inl err \<Rightarrow> Inl err
      | Inr filter_x \<Rightarrow>
      GrantAuthorizationCmd_grant env clientCtx flags args grantee contract limit filter_x)))))))))))))"

text \<open>
  The flags that \<^verbatim>\<open>GrantAuthorizationCmd\<close> and
  \<^verbatim>\<open>GrantStoreCodeAuthorizationCmd\<close> register themselves, with their default values:
  the value a getter returns for a flag that the command line leaves unset.
\<close>

definition GrantAuthorizationCmd_Flags :: FlagSet where
  "GrantAuthorizationCmd_Flags =
     [flagAllowedMsgKeys \<mapsto> FStringSlice [],
      flagAllowedRawMsgs \<mapsto> FStringSlice [],
      flagMaxCalls \<mapsto> FUint64 0,
      flagMaxFunds \<mapsto> FString '''',
      flagExpiration \<mapsto> FInt64 0,
      flagAllowAllMsgs \<mapsto> FBool False,
      flagNoTokenTransfer \<mapsto> FBool False]"

definition GrantStoreCodeAuthorizationCmd_Flags :: FlagSet where
  "GrantStoreCodeAuthorizationCmd_Flags = [flagExpiration \<mapsto> FInt64 0]"

text \<open>
  \<^verbatim>\<open>parseStoreCodeGrants\<close>. The slice \<^verbatim>\<open>grants\<close> is allocated with one zero
  \<^verbatim>\<open>CodeGrant\<close> per argument and entry \<^verbatim>\<open>i\<close> is assigned while the loop ranges over
  the arguments; the first error returns at once. \<^verbatim>\<open>parseAccessConfig\<close> is the parameter of
  that name.
\<close>

fun parseStoreCodeGrants_loop ::
  "Env \<Rightarrow> nat \<Rightarrow> string list \<Rightarrow> CodeGrant list \<Rightarrow> error + CodeGrant list" where
  "parseStoreCodeGrants_loop env i [] grants = Inr grants"
| "parseStoreCodeGrants_loop env i (c # cs) grants =
     (let parts = strings_Split c (CHR '':'') in
      if length parts \<noteq> 2 then Inl (New ''invalid format'')
      else if parts ! 1 = ''*'' then
        parseStoreCodeGrants_loop env (Suc i) cs
          (grants[i := \<lparr>CodeHash = parts ! 0, InstantiatePermission = None\<rparr>])
      else
        (case parseAccessConfig env (parts ! 1) of
           Inl err \<Rightarrow> Inl err
         | Inr accessConfig \<Rightarrow>
             parseStoreCodeGrants_loop env (Suc i) cs
               (grants[i := \<lparr>CodeHash = parts ! 0,
                               InstantiatePermission = Some accessConfig\<rparr>])))"

definition parseStoreCodeGrants :: "Env \<Rightarrow> string list \<Rightarrow> error + CodeGrant list" where
  "parseStoreCodeGrants env args =
     parseStoreCodeGrants_loop env 0 args
       (replicate (length args) \<lparr>CodeHash = [], InstantiatePermission = None\<rparr>)"

definition GrantStoreCodeAuthorizationCmd ::
  "Env \<Rightarrow> callee_error + Context \<Rightarrow> string list \<Rightarrow> FlagSet \<Rightarrow> error + sdk_Msg" where
  "GrantStoreCodeAuthorizationCmd env GetClientTxContext args flags =
     (if length args < 2 then Inl (Callee (MinimumNArgsError 2 (length args)))
      else
      (case GetClientTxContext of
        Inl err \<Rightarrow> Inl (Callee err)
      | Inr clientCtx \<Rightarrow>
      (case AccAddressFromBech32 env (args ! 0) of
        Inl err \<Rightarrow> Inl (Callee err)
      | Inr grantee \<Rightarrow>
      (case parseStoreCodeGrants env (drop 1 args) of
        Inl err \<Rightarrow> Inl err
      | Inr grants \<Rightarrow>
      let authorization = NewStoreCodeAuthorization grants in
      (case getExpireTime flags of
        Inl err \<Rightarrow> Inl err
      | Inr expire \<Rightarrow>
      (case NewMsgGrant env (GetFromAddress clientCtx) grantee authorization expire of
        Inl err \<Rightarrow> Inl (Callee err)
      | Inr grantMsg \<Rightarrow>
      (case GenerateOrBroadcastTxCLI env clientCtx flags grantMsg of
        Some err \<Rightarrow> Inl (Callee err)
      | None \<Rightarrow> Inr grantMsg)))))))"

section \<open>Auxiliary definitions for the proofs\<close>

text \<open>
  The body of the loop of \<^verbatim>\<open>parseStoreCodeGrants\<close> for one argument, and the loop as the
  list of the grants of its arguments, stopping at the first error. The loop of the
  source is shown equal to the second below.
\<close>

definition parseStoreCodeGrants_body :: "Env \<Rightarrow> string \<Rightarrow> error + CodeGrant" where
  "parseStoreCodeGrants_body env c =
     (let parts = strings_Split c (CHR '':'') in
      if length parts \<noteq> 2 then Inl (New ''invalid format'')
      else if parts ! 1 = ''*'' then
        Inr \<lparr>CodeHash = parts ! 0, InstantiatePermission = None\<rparr>
      else
        (case parseAccessConfig env (parts ! 1) of
           Inl err \<Rightarrow> Inl err
         | Inr accessConfig \<Rightarrow>
             Inr \<lparr>CodeHash = parts ! 0, InstantiatePermission = Some accessConfig\<rparr>))"

fun parseStoreCodeGrants_each :: "Env \<Rightarrow> string list \<Rightarrow> error + CodeGrant list" where
  "parseStoreCodeGrants_each env [] = Inr []"
| "parseStoreCodeGrants_each env (c # cs) =
     (case parseStoreCodeGrants_body env c of
        Inl err \<Rightarrow> Inl err
      | Inr g \<Rightarrow>
          (case parseStoreCodeGrants_each env cs of
             Inl err \<Rightarrow> Inl err
           | Inr gs \<Rightarrow> Inr (g # gs)))"

text \<open>
  Test doubles for the collaborators, used where a theorem is applied to concrete
  inputs: addresses are written \<^verbatim>\<open>wasm1\<close> followed by their bytes, the only coin strings
  are the empty one and \<^verbatim>\<open>100uwasm\<close>, validation and broadcast accept every message,
  the keyring holds one key, and the policy parser knows \<^verbatim>\<open>nobody\<close> and
  \<^verbatim>\<open>everybody\<close>.
\<close>

definition stub_Env :: Env where
  "stub_Env =
     \<lparr>AccAddressFromBech32 =
        (\<lambda>s. if take 5 s = ''wasm1'' \<and> 5 < length s then Inr (drop 5 s)
             else Inl (Other ''decoding bech32 failed'')),
      AccAddress_String = (\<lambda>a. if a = [] then [] else ''wasm1'' @ a),
      ParseCoinsNormalized =
        (\<lambda>s. if s = [] then Inr []
             else if s = ''100uwasm'' then Inr [\<lparr>Denom = ''uwasm'', Amount = 100\<rparr>]
             else Inl (Other ''invalid decimal coin expression'')),
      ValidateBasic = (\<lambda>m. None),
      NewContractGrant = (\<lambda>contract limit filter_x. Inr (ContractGrant contract limit filter_x)),
      NewMsgGrant =
        (\<lambda>granter grantee authorization expire.
           Inr (MsgGrant granter grantee authorization expire)),
      GenerateOrBroadcastTxCLI = (\<lambda>clientCtx flags m. None),
      parseAccessConfig =
        (\<lambda>raw. if raw = ''nobody'' then Inr AllowNobody
               else if raw = ''everybody'' then Inr AllowEverybody
               else Inl (Errorf ''unable to parse address %q: %s''
                           [Q raw, E (Other ''decoding bech32 failed'')]))\<rparr>"

definition stub_Context :: Context where
  "stub_Context =
     \<lparr>GetFromAddress = ''granter'',
      Keyring =
        (\<lambda>name. if name = ''mykey'' then Inr (Record (Inr ''keyaddr''))
                else Inl (Other ''key not found''))\<rparr>"

section \<open>Store-code grant parser\<close>

lemma strings_Split_length: "length (strings_Split s sep) = Suc (count_list s sep)"
  by (induction s) auto

lemma strings_Split_first:
  "sep \<notin> set h \<Longrightarrow> strings_Split (h @ sep # p) sep = h # strings_Split p sep"
  by (induction h) auto

lemma parseStoreCodeGrants_loop_each:
  "parseStoreCodeGrants_loop env (length done) cs (done @ replicate (length cs) z) =
     (case parseStoreCodeGrants_each env cs of Inl e \<Rightarrow> Inl e | Inr gs \<Rightarrow> Inr (done @ gs))"
proof (induction cs arbitrary: "done")
  case Nil
  then show ?case by simp
next
  case (Cons c cs)
  have upd: "\<And>g. (done @ replicate (length (c # cs)) z)[length done := g]
              = (done @ [g]) @ replicate (length cs) z"
    by (simp add: list_update_append)
  have step: "\<And>g. parseStoreCodeGrants_loop env (Suc (length done)) cs
                     ((done @ [g]) @ replicate (length cs) z)
      = (case parseStoreCodeGrants_each env cs of
           Inl e \<Rightarrow> Inl e | Inr gs \<Rightarrow> Inr ((done @ [g]) @ gs))"
    using Cons.IH[of "done @ [g]" for g] by simp
  show ?case
    unfolding parseStoreCodeGrants_loop.simps upd
    by (simp only: step Let_def parseStoreCodeGrants_body_def parseStoreCodeGrants_each.simps)
       (auto simp: Let_def split: sum.splits)
qed

lemma parseStoreCodeGrants_each_eq:
  "parseStoreCodeGrants env args = parseStoreCodeGrants_each env args"
  using parseStoreCodeGrants_loop_each[of env "[]" args] unfolding parseStoreCodeGrants_def
  by (auto split: sum.splits)

lemma parseStoreCodeGrants_single:
  "(parseStoreCodeGrants env [c] = Inr [g]) = (parseStoreCodeGrants_body env c = Inr g)"
  by (auto simp: parseStoreCodeGrants_each_eq split: sum.splits)

lemma each_Inr_iff:
  "parseStoreCodeGrants_each env cs = Inr gs \<longleftrightarrow>
     length gs = length cs \<and>
     (\<forall>i<length cs. parseStoreCodeGrants_body env (cs ! i) = Inr (gs ! i))"
proof (induction cs arbitrary: gs)
  case Nil
  then show ?case by auto
next
  case (Cons c cs)
  show ?case
  proof (cases gs)
    case Nil
    then show ?thesis by (auto split: sum.splits)
  next
    case (Cons g gs')
    then show ?thesis
      using Cons.IH[of gs']
      by (auto simp: nth_Cons less_Suc_eq_0_disj split: sum.splits nat.splits)
  qed
qed

lemma each_first_error:
  "i < length cs \<Longrightarrow> parseStoreCodeGrants_body env (cs ! i) = Inl e \<Longrightarrow>
   (\<forall>j<i. \<exists>g. parseStoreCodeGrants_body env (cs ! j) = Inr g) \<Longrightarrow>
   parseStoreCodeGrants_each env cs = Inl e"
proof (induction cs arbitrary: i)
  case Nil
  then show ?case by simp
next
  case (Cons c cs)
  show ?case
  proof (cases i)
    case 0
    with Cons.prems show ?thesis by simp
  next
    case (Suc k)
    from Cons.prems(3) Suc obtain g where g: "parseStoreCodeGrants_body env c = Inr g"
      by fastforce
    have "\<forall>j<k. \<exists>g. parseStoreCodeGrants_body env (cs ! j) = Inr g"
      using Cons.prems(3) Suc by fastforce
    with Cons.IH[of k] Cons.prems(1,2) Suc have "parseStoreCodeGrants_each env cs = Inl e"
      by simp
    with g show ?thesis by simp
  qed
qed

lemma each_some_error:
  "i < length cs \<Longrightarrow> parseStoreCodeGrants_body env (cs ! i) = Inl e \<Longrightarrow>
   \<exists>e'. parseStoreCodeGrants_each env cs = Inl e'"
proof (induction cs arbitrary: i)
  case Nil
  then show ?case by simp
next
  case (Cons c cs)
  then show ?case
    by (cases i) (auto split: sum.splits)
qed

lemma body_format:
  "count_list c (CHR '':'') \<noteq> 1 \<Longrightarrow>
   parseStoreCodeGrants_body env c = Inl (New ''invalid format'')"
  by (simp add: parseStoreCodeGrants_body_def strings_Split_length)

lemma body_star:
  "CHR '':'' \<notin> set h \<Longrightarrow>
   parseStoreCodeGrants_body env (h @ '':*'') =
     Inr \<lparr>CodeHash = h, InstantiatePermission = None\<rparr>"
  by (simp add: parseStoreCodeGrants_body_def strings_Split_first)

text \<open>
  Claim C4. For every list of tokens: a token that does not have exactly one colon (so
  that it does not split into exactly two parts) makes the parser fail, and with the
  error \<^verbatim>\<open>invalid format\<close> whenever the tokens before it are accepted; a token
  \<^verbatim>\<open>hash:*\<close> yields the grant whose code hash is the bytes of the text before the colon
  and which has no permission; and the parser succeeds with a list \<open>gs\<close> exactly when
  \<open>gs\<close> has one grant per token, the \<open>i\<close>-th being the grant of the \<open>i\<close>-th token parsed on its
  own, so the order is kept and equal hashes stay as they are, neither merged nor
  rejected.
\<close>

theorem parseStoreCodeGrants_tokens:
  "(\<forall>i<length args. count_list (args ! i) (CHR '':'') \<noteq> 1 \<longrightarrow>
      (\<exists>e. parseStoreCodeGrants env args = Inl e) \<and>
      ((\<forall>j<i. \<exists>g. parseStoreCodeGrants env [args ! j] = Inr [g]) \<longrightarrow>
         parseStoreCodeGrants env args = Inl (New ''invalid format'')))
   \<and> (\<forall>h. CHR '':'' \<notin> set h \<longrightarrow>
         parseStoreCodeGrants env [h @ '':*''] =
           Inr [\<lparr>CodeHash = h, InstantiatePermission = None\<rparr>])
   \<and> (\<forall>gs. parseStoreCodeGrants env args = Inr gs \<longleftrightarrow>
         length gs = length args \<and>
         (\<forall>i<length args. parseStoreCodeGrants env [args ! i] = Inr [gs ! i]))"
proof (intro conjI allI impI)
  fix i assume i: "i < length args" and bad: "count_list (args ! i) (CHR '':'') \<noteq> 1"
  show "\<exists>e. parseStoreCodeGrants env args = Inl e"
    using each_some_error[OF i body_format[OF bad]]
    by (simp add: parseStoreCodeGrants_each_eq)
next
  fix i assume i: "i < length args" and bad: "count_list (args ! i) (CHR '':'') \<noteq> 1"
    and before: "\<forall>j<i. \<exists>g. parseStoreCodeGrants env [args ! j] = Inr [g]"
  have "\<forall>j<i. \<exists>g. parseStoreCodeGrants_body env (args ! j) = Inr g"
    using before by (simp only: parseStoreCodeGrants_single)
  from each_first_error[OF i body_format[OF bad] this]
  show "parseStoreCodeGrants env args = Inl (New ''invalid format'')"
    by (simp add: parseStoreCodeGrants_each_eq)
next
  fix h :: string assume "CHR '':'' \<notin> set h"
  from body_star[OF this]
  show "parseStoreCodeGrants env [h @ '':*''] =
           Inr [\<lparr>CodeHash = h, InstantiatePermission = None\<rparr>]"
    by (simp only: parseStoreCodeGrants_single)
next
  fix gs
  show "parseStoreCodeGrants env args = Inr gs \<longleftrightarrow>
         length gs = length args \<and>
         (\<forall>i<length args. parseStoreCodeGrants env [args ! i] = Inr [gs ! i])"
    by (simp only: parseStoreCodeGrants_single)
       (simp only: parseStoreCodeGrants_each_eq each_Inr_iff)
qed

theorem parseStoreCodeGrants_tokens_witness:
  "parseStoreCodeGrants stub_Env [''abc:*'', ''a:b:c'', ''ff''] = Inl (New ''invalid format'')
   \<and> parseStoreCodeGrants stub_Env [''abc:*''] =
        Inr [\<lparr>CodeHash = ''abc'', InstantiatePermission = None\<rparr>]
   \<and> parseStoreCodeGrants stub_Env [''abc:*'', ''abc:*'', ''ff:nobody''] =
        Inr [\<lparr>CodeHash = ''abc'', InstantiatePermission = None\<rparr>,
             \<lparr>CodeHash = ''abc'', InstantiatePermission = None\<rparr>,
             \<lparr>CodeHash = ''ff'', InstantiatePermission = Some AllowNobody\<rparr>]"
proof -
  let ?bad = "[''abc:*'', ''a:b:c'', ''ff'']"
  let ?ok = "[''abc:*'', ''abc:*'', ''ff:nobody'']"
  let ?gs = "[\<lparr>CodeHash = ''abc'', InstantiatePermission = None\<rparr>,
             \<lparr>CodeHash = ''abc'', InstantiatePermission = None\<rparr>,
             \<lparr>CodeHash = ''ff'', InstantiatePermission = Some AllowNobody\<rparr>]"
  have star: "CHR '':'' \<notin> set h \<Longrightarrow> parseStoreCodeGrants stub_Env [h @ '':*''] =
           Inr [\<lparr>CodeHash = h, InstantiatePermission = None\<rparr>]" for h
    using parseStoreCodeGrants_tokens[of ?ok stub_Env] by blast
  have one: "parseStoreCodeGrants stub_Env [''abc:*''] =
        Inr [\<lparr>CodeHash = ''abc'', InstantiatePermission = None\<rparr>]"
    using star[of "''abc''"] by simp
  have two: "parseStoreCodeGrants stub_Env [''ff:nobody''] =
        Inr [\<lparr>CodeHash = ''ff'', InstantiatePermission = Some AllowNobody\<rparr>]"
    by (simp add: parseStoreCodeGrants_def stub_Env_def)
  have fmt: "i < length ?bad \<Longrightarrow> count_list (?bad ! i) (CHR '':'') \<noteq> 1 \<Longrightarrow>
      (\<forall>j<i. \<exists>g. parseStoreCodeGrants stub_Env [?bad ! j] = Inr [g]) \<Longrightarrow>
      parseStoreCodeGrants stub_Env ?bad = Inl (New ''invalid format'')" for i
    using parseStoreCodeGrants_tokens[of ?bad stub_Env] by blast
  have bad: "parseStoreCodeGrants stub_Env ?bad = Inl (New ''invalid format'')"
    using fmt[of "Suc 0"] one by simp
  have iff: "(parseStoreCodeGrants stub_Env ?ok = Inr ?gs) =
      (length ?gs = length ?ok \<and>
       (\<forall>i<length ?ok. parseStoreCodeGrants stub_Env [?ok ! i] = Inr [?gs ! i]))"
    using parseStoreCodeGrants_tokens[of ?ok stub_Env] by blast
  have ok: "parseStoreCodeGrants stub_Env ?ok = Inr ?gs"
    unfolding iff using one two by (simp add: All_less_Suc)
  from bad one ok show ?thesis by simp
qed

section \<open>Contract authorization grant\<close>

lemma GrantAuthorizationCmd_msgs_fill:
  "GrantAuthorizationCmd_msgs (length done) rawMsgs (done @ replicate (length rawMsgs) z)
     = done @ rawMsgs"
proof (induction rawMsgs arbitrary: "done")
  case Nil
  then show ?case by simp
next
  case (Cons m rest)
  have "(done @ replicate (length (m # rest)) z)[length done := m]
          = (done @ [m]) @ replicate (length rest) z"
    by (simp add: list_update_append)
  then show ?case
    using Cons.IH[of "done @ [m]"] by simp
qed

lemma GrantAuthorizationCmd_msgs_all:
  "GrantAuthorizationCmd_msgs 0 rawMsgs (replicate (length rawMsgs) z) = rawMsgs"
  using GrantAuthorizationCmd_msgs_fill[of "[]" rawMsgs z] by simp

lemma GrantAuthorizationCmd_after_expiration:
  assumes "AccAddressFromBech32 env granteeStr = Inr grantee"
    and "AccAddressFromBech32 env contractStr = Inr contract"
    and "GetStringSlice flags flagAllowedMsgKeys = Inr msgKeys"
    and "GetStringSlice flags flagAllowedRawMsgs = Inr rawMsgs"
    and "GetString flags flagMaxFunds = Inr maxFundsStr"
    and "GetUint64 flags flagMaxCalls = Inr maxCalls"
    and "GetInt64 flags flagExpiration = Inr exp" and "exp \<noteq> 0"
    and "GetBool flags flagAllowAllMsgs = Inr allowAllMsgs"
    and "GetBool flags flagNoTokenTransfer = Inr noTokenTransfer"
  shows "GrantAuthorizationCmd env (Inr clientCtx) [granteeStr, kind, contractStr] flags =
     (case GrantAuthorizationCmd_limit env maxFundsStr maxCalls noTokenTransfer of
        Inl err \<Rightarrow> Inl err
      | Inr limit \<Rightarrow>
          (case GrantAuthorizationCmd_filter allowAllMsgs msgKeys rawMsgs of
             Inl err \<Rightarrow> Inl err
           | Inr filter_x \<Rightarrow>
               GrantAuthorizationCmd_grant env clientCtx flags [granteeStr, kind, contractStr]
                 grantee contract limit filter_x))"
  unfolding GrantAuthorizationCmd_def using assms by simp

lemma GrantAuthorizationCmd_limit_cases:
  "GrantAuthorizationCmd_limit env maxFundsStr maxCalls noTokenTransfer =
     (if maxFundsStr \<noteq> [] \<and> \<not> noTokenTransfer then
        (case ParseCoinsNormalized env maxFundsStr of
           Inl err \<Rightarrow> Inl (Errorf ''max funds: %s'' [E err])
         | Inr maxFunds \<Rightarrow>
             Inr (if maxCalls \<noteq> 0 then NewCombinedLimit maxCalls maxFunds
                  else NewMaxFundsLimit maxFunds))
      else if maxFundsStr = [] \<and> noTokenTransfer \<and> maxCalls \<noteq> 0 then
        Inr (NewMaxCallsLimit maxCalls)
      else Inl (New ''invalid limit setup''))"
  unfolding GrantAuthorizationCmd_limit_def by (auto split: sum.splits)

text \<open>
  Claim C1. Once the client context, the two addresses and the flags have been read and
  the expiration is not zero, the limit is resolved by exactly three rows: max-funds
  non-empty, max-calls non-zero and no-token-transfer false give the combined limit of the
  calls and the parsed funds; max-funds non-empty, max-calls zero and no-token-transfer
  false give the funds limit of the parsed funds; max-calls non-zero, no-token-transfer
  true and max-funds empty give the calls limit. Every other combination of the three
  flags makes the limit resolution, and with it the command, fail with
  \<^verbatim>\<open>invalid limit setup\<close>. Where a limit is resolved the command goes on with the
  filter and the grant built from that limit. In the first two rows the funds are those
  that \<^verbatim>\<open>ParseCoinsNormalized\<close> returns for the flag; a max-funds text that it rejects
  is reported as the error \<^verbatim>\<open>max funds: ...\<close> of the coin parser, not as a limit setup
  error.
\<close>

theorem GrantAuthorizationCmd_limit_table:
  assumes "AccAddressFromBech32 env granteeStr = Inr grantee"
    and "AccAddressFromBech32 env contractStr = Inr contract"
    and "GetStringSlice flags flagAllowedMsgKeys = Inr msgKeys"
    and "GetStringSlice flags flagAllowedRawMsgs = Inr rawMsgs"
    and "GetString flags flagMaxFunds = Inr maxFundsStr"
    and "GetUint64 flags flagMaxCalls = Inr maxCalls"
    and "GetInt64 flags flagExpiration = Inr exp" and "exp \<noteq> 0"
    and "GetBool flags flagAllowAllMsgs = Inr allowAllMsgs"
    and "GetBool flags flagNoTokenTransfer = Inr noTokenTransfer"
  shows
    "(maxFundsStr \<noteq> '''' \<and> maxCalls \<noteq> 0 \<and> \<not> noTokenTransfer \<longrightarrow>
        (\<forall>maxFunds. ParseCoinsNormalized env maxFundsStr = Inr maxFunds \<longrightarrow>
           GrantAuthorizationCmd_limit env maxFundsStr maxCalls noTokenTransfer =
             Inr (NewCombinedLimit maxCalls maxFunds)))
     \<and> (maxFundsStr \<noteq> '''' \<and> maxCalls = 0 \<and> \<not> noTokenTransfer \<longrightarrow>
        (\<forall>maxFunds. ParseCoinsNormalized env maxFundsStr = Inr maxFunds \<longrightarrow>
           GrantAuthorizationCmd_limit env maxFundsStr maxCalls noTokenTransfer =
             Inr (NewMaxFundsLimit maxFunds)))
     \<and> (maxCalls \<noteq> 0 \<and> noTokenTransfer \<and> maxFundsStr = '''' \<longrightarrow>
           GrantAuthorizationCmd_limit env maxFundsStr maxCalls noTokenTransfer =
             Inr (NewMaxCallsLimit maxCalls))
     \<and> (maxFundsStr \<noteq> '''' \<and> \<not> noTokenTransfer \<longrightarrow>
        (\<forall>err. ParseCoinsNormalized env maxFundsStr = Inl err \<longrightarrow>
           GrantAuthorizationCmd_limit env maxFundsStr maxCalls noTokenTransfer =
             Inl (Errorf ''max funds: %s'' [E err])))
     \<and> (\<not> (maxFundsStr \<noteq> '''' \<and> maxCalls \<noteq> 0 \<and> \<not> noTokenTransfer)
         \<and> \<not> (maxFundsStr \<noteq> '''' \<and> maxCalls = 0 \<and> \<not> noTokenTransfer)
         \<and> \<not> (maxCalls \<noteq> 0 \<and> noTokenTransfer \<and> maxFundsStr = '''') \<longrightarrow>
           GrantAuthorizationCmd_limit env maxFundsStr maxCalls noTokenTransfer =
             Inl (New ''invalid limit setup'')
           \<and> GrantAuthorizationCmd env (Inr clientCtx) [granteeStr, kind, contractStr] flags =
             Inl (New ''invalid limit setup''))
     \<and> (\<forall>limit. GrantAuthorizationCmd_limit env maxFundsStr maxCalls noTokenTransfer = Inr limit
          \<longrightarrow> GrantAuthorizationCmd env (Inr clientCtx) [granteeStr, kind, contractStr] flags =
             (case GrantAuthorizationCmd_filter allowAllMsgs msgKeys rawMsgs of
                Inl err \<Rightarrow> Inl err
              | Inr filter_x \<Rightarrow>
                  GrantAuthorizationCmd_grant env clientCtx flags
                    [granteeStr, kind, contractStr] grantee contract limit filter_x))"
proof -
  note run = GrantAuthorizationCmd_after_expiration[OF assms, of clientCtx kind]
  show ?thesis
    unfolding run by (simp add: GrantAuthorizationCmd_limit_cases)
qed


theorem GrantAuthorizationCmd_limit_table_witness:
  "GrantAuthorizationCmd_limit stub_Env ''100uwasm'' 5 False =
     Inr (NewCombinedLimit 5 [\<lparr>Denom = ''uwasm'', Amount = 100\<rparr>])
   \<and> GrantAuthorizationCmd stub_Env (Inr stub_Context)
       [''wasm1grantee'', ''execution'', ''wasm1contract'']
       (GrantAuthorizationCmd_Flags
          (flagMaxCalls \<mapsto> FUint64 5, flagMaxFunds \<mapsto> FString ''100uwasm'',
           flagExpiration \<mapsto> FInt64 1667979596, flagAllowAllMsgs \<mapsto> FBool True)) =
     Inr (MsgGrant ''granter'' ''grantee''
            (NewContractExecutionAuthorization
               (ContractGrant ''contract''
                  (NewCombinedLimit 5 [\<lparr>Denom = ''uwasm'', Amount = 100\<rparr>])
                  NewAllowAllMessagesFilter))
            (Some (time_Unix 1667979596 0)))
   \<and> GrantAuthorizationCmd stub_Env (Inr stub_Context)
       [''wasm1grantee'', ''execution'', ''wasm1contract'']
       (GrantAuthorizationCmd_Flags
          (flagMaxCalls \<mapsto> FUint64 5, flagMaxFunds \<mapsto> FString ''100uwasm'',
           flagExpiration \<mapsto> FInt64 1667979596, flagNoTokenTransfer \<mapsto> FBool True)) =
     Inl (New ''invalid limit setup'')"
proof -
  let ?args = "[''wasm1grantee'', ''execution'', ''wasm1contract'']"
  let ?f1 = "GrantAuthorizationCmd_Flags
          (flagMaxCalls \<mapsto> FUint64 5, flagMaxFunds \<mapsto> FString ''100uwasm'',
           flagExpiration \<mapsto> FInt64 1667979596, flagAllowAllMsgs \<mapsto> FBool True)"
  let ?f2 = "GrantAuthorizationCmd_Flags
          (flagMaxCalls \<mapsto> FUint64 5, flagMaxFunds \<mapsto> FString ''100uwasm'',
           flagExpiration \<mapsto> FInt64 1667979596, flagNoTokenTransfer \<mapsto> FBool True)"
  have g: "AccAddressFromBech32 stub_Env ''wasm1grantee'' = Inr ''grantee''"
    and c: "AccAddressFromBech32 stub_Env ''wasm1contract'' = Inr ''contract''"
    and p: "ParseCoinsNormalized stub_Env ''100uwasm'' = Inr [\<lparr>Denom = ''uwasm'', Amount = 100\<rparr>]"
    by (simp_all add: stub_Env_def)
  have k1: "GetStringSlice ?f1 flagAllowedMsgKeys = Inr []"
    and r1: "GetStringSlice ?f1 flagAllowedRawMsgs = Inr []"
    and m1: "GetString ?f1 flagMaxFunds = Inr ''100uwasm''"
    and n1: "GetUint64 ?f1 flagMaxCalls = Inr 5"
    and e1: "GetInt64 ?f1 flagExpiration = Inr 1667979596"
    and a1: "GetBool ?f1 flagAllowAllMsgs = Inr True"
    and t1: "GetBool ?f1 flagNoTokenTransfer = Inr False"
    by (simp_all add: GrantAuthorizationCmd_Flags_def GetStringSlice_def GetString_def
          GetUint64_def GetInt64_def GetBool_def)
  have k2: "GetStringSlice ?f2 flagAllowedMsgKeys = Inr []"
    and r2: "GetStringSlice ?f2 flagAllowedRawMsgs = Inr []"
    and m2: "GetString ?f2 flagMaxFunds = Inr ''100uwasm''"
    and n2: "GetUint64 ?f2 flagMaxCalls = Inr 5"
    and e2: "GetInt64 ?f2 flagExpiration = Inr 1667979596"
    and a2: "GetBool ?f2 flagAllowAllMsgs = Inr False"
    and t2: "GetBool ?f2 flagNoTokenTransfer = Inr True"
    by (simp_all add: GrantAuthorizationCmd_Flags_def GetStringSlice_def GetString_def
          GetUint64_def GetInt64_def GetBool_def)
  have nz: "(1667979596 :: 64 word) \<noteq> 0" by simp
  note T1 = GrantAuthorizationCmd_limit_table[OF g c k1 r1 m1 n1 e1 nz a1 t1,
      of stub_Context "''execution''"]
  note T2 = GrantAuthorizationCmd_limit_table[OF g c k2 r2 m2 n2 e2 nz a2 t2,
      of stub_Context "''execution''"]
  have lim: "GrantAuthorizationCmd_limit stub_Env ''100uwasm'' 5 False =
     Inr (NewCombinedLimit 5 [\<lparr>Denom = ''uwasm'', Amount = 100\<rparr>])"
    using T1 p by simp
  have run: "GrantAuthorizationCmd stub_Env (Inr stub_Context) ?args ?f1 =
     (case GrantAuthorizationCmd_filter True [] [] of
        Inl err \<Rightarrow> Inl err
      | Inr filter_x \<Rightarrow>
          GrantAuthorizationCmd_grant stub_Env stub_Context ?f1 ?args ''grantee'' ''contract''
            (NewCombinedLimit 5 [\<lparr>Denom = ''uwasm'', Amount = 100\<rparr>]) filter_x)"
    using T1 lim by blast
  have ok: "GrantAuthorizationCmd stub_Env (Inr stub_Context) ?args ?f1 =
     Inr (MsgGrant ''granter'' ''grantee''
            (NewContractExecutionAuthorization
               (ContractGrant ''contract''
                  (NewCombinedLimit 5 [\<lparr>Denom = ''uwasm'', Amount = 100\<rparr>])
                  NewAllowAllMessagesFilter))
            (Some (time_Unix 1667979596 0)))"
    unfolding run
    by (simp add: GrantAuthorizationCmd_filter_def GrantAuthorizationCmd_grant_def
          getExpireTime_def e1 stub_Env_def stub_Context_def)
  have bad: "GrantAuthorizationCmd stub_Env (Inr stub_Context) ?args ?f2 =
     Inl (New ''invalid limit setup'')"
    using T2 by simp
  from lim ok bad show ?thesis by blast
qed

text \<open>
  Claim C2. Once the flags have been read, the expiration is not zero and a limit has been
  resolved, the filter is resolved to one variant or to an error, never to a composite:
  if two or more of allow-all-messages, a non-empty allow-msg-keys and a non-empty
  allow-raw-msgs hold, the filter resolution and the command fail with
  \<^verbatim>\<open>cannot set more than one filter within one grant\<close>; if none holds they fail with
  \<^verbatim>\<open>invalid filter setup\<close>; if exactly one holds, the filter is the allow-all filter,
  the accepted-keys filter of the given keys or the accepted-messages filter of the given
  raw messages, and the command goes on to build the grant from it.
\<close>

theorem GrantAuthorizationCmd_filter_exclusive:
  assumes "AccAddressFromBech32 env granteeStr = Inr grantee"
    and "AccAddressFromBech32 env contractStr = Inr contract"
    and "GetStringSlice flags flagAllowedMsgKeys = Inr msgKeys"
    and "GetStringSlice flags flagAllowedRawMsgs = Inr rawMsgs"
    and "GetString flags flagMaxFunds = Inr maxFundsStr"
    and "GetUint64 flags flagMaxCalls = Inr maxCalls"
    and "GetInt64 flags flagExpiration = Inr exp" and "exp \<noteq> 0"
    and "GetBool flags flagAllowAllMsgs = Inr allowAllMsgs"
    and "GetBool flags flagNoTokenTransfer = Inr noTokenTransfer"
    and "GrantAuthorizationCmd_limit env maxFundsStr maxCalls noTokenTransfer = Inr limit"
  shows
    "(allowAllMsgs \<and> msgKeys \<noteq> [] \<or> allowAllMsgs \<and> rawMsgs \<noteq> [] \<or> msgKeys \<noteq> [] \<and> rawMsgs \<noteq> []
        \<longrightarrow> GrantAuthorizationCmd_filter allowAllMsgs msgKeys rawMsgs =
              Inl (New ''cannot set more than one filter within one grant'')
            \<and> GrantAuthorizationCmd env (Inr clientCtx) [granteeStr, kind, contractStr] flags =
              Inl (New ''cannot set more than one filter within one grant''))
     \<and> (\<not> allowAllMsgs \<and> msgKeys = [] \<and> rawMsgs = []
        \<longrightarrow> GrantAuthorizationCmd_filter allowAllMsgs msgKeys rawMsgs =
              Inl (New ''invalid filter setup'')
            \<and> GrantAuthorizationCmd env (Inr clientCtx) [granteeStr, kind, contractStr] flags =
              Inl (New ''invalid filter setup''))
     \<and> (allowAllMsgs \<and> msgKeys = [] \<and> rawMsgs = []
        \<longrightarrow> GrantAuthorizationCmd_filter allowAllMsgs msgKeys rawMsgs =
              Inr NewAllowAllMessagesFilter
            \<and> GrantAuthorizationCmd env (Inr clientCtx) [granteeStr, kind, contractStr] flags =
              GrantAuthorizationCmd_grant env clientCtx flags [granteeStr, kind, contractStr]
                grantee contract limit NewAllowAllMessagesFilter)
     \<and> (\<not> allowAllMsgs \<and> msgKeys \<noteq> [] \<and> rawMsgs = []
        \<longrightarrow> GrantAuthorizationCmd_filter allowAllMsgs msgKeys rawMsgs =
              Inr (NewAcceptedMessageKeysFilter msgKeys)
            \<and> GrantAuthorizationCmd env (Inr clientCtx) [granteeStr, kind, contractStr] flags =
              GrantAuthorizationCmd_grant env clientCtx flags [granteeStr, kind, contractStr]
                grantee contract limit (NewAcceptedMessageKeysFilter msgKeys))
     \<and> (\<not> allowAllMsgs \<and> msgKeys = [] \<and> rawMsgs \<noteq> []
        \<longrightarrow> GrantAuthorizationCmd_filter allowAllMsgs msgKeys rawMsgs =
              Inr (NewAcceptedMessagesFilter rawMsgs)
            \<and> GrantAuthorizationCmd env (Inr clientCtx) [granteeStr, kind, contractStr] flags =
              GrantAuthorizationCmd_grant env clientCtx flags [granteeStr, kind, contractStr]
                grantee contract limit (NewAcceptedMessagesFilter rawMsgs))"
proof -
  note run = GrantAuthorizationCmd_after_expiration[OF assms(1-10), of clientCtx kind]
  show ?thesis
    unfolding run assms(11)
    by (simp add: GrantAuthorizationCmd_filter_def GrantAuthorizationCmd_msgs_all)
qed

theorem GrantAuthorizationCmd_filter_exclusive_witness:
  "GrantAuthorizationCmd stub_Env (Inr stub_Context)
       [''wasm1grantee'', ''migration'', ''wasm1contract'']
       (GrantAuthorizationCmd_Flags
          (flagMaxCalls \<mapsto> FUint64 1, flagNoTokenTransfer \<mapsto> FBool True,
           flagExpiration \<mapsto> FInt64 1667979596, flagAllowAllMsgs \<mapsto> FBool True,
           flagAllowedMsgKeys \<mapsto> FStringSlice [''release''])) =
     Inl (New ''cannot set more than one filter within one grant'')
   \<and> GrantAuthorizationCmd stub_Env (Inr stub_Context)
       [''wasm1grantee'', ''migration'', ''wasm1contract'']
       (GrantAuthorizationCmd_Flags
          (flagMaxCalls \<mapsto> FUint64 1, flagNoTokenTransfer \<mapsto> FBool True,
           flagExpiration \<mapsto> FInt64 1667979596)) =
     Inl (New ''invalid filter setup'')
   \<and> GrantAuthorizationCmd stub_Env (Inr stub_Context)
       [''wasm1grantee'', ''migration'', ''wasm1contract'']
       (GrantAuthorizationCmd_Flags
          (flagMaxCalls \<mapsto> FUint64 1, flagNoTokenTransfer \<mapsto> FBool True,
           flagExpiration \<mapsto> FInt64 1667979596,
           flagAllowedRawMsgs \<mapsto> FStringSlice [''{}''])) =
     Inr (MsgGrant ''granter'' ''grantee''
            (NewContractMigrationAuthorization
               (ContractGrant ''contract'' (NewMaxCallsLimit 1)
                  (NewAcceptedMessagesFilter [''{}''])))
            (Some (time_Unix 1667979596 0)))"
proof -
  let ?args = "[''wasm1grantee'', ''migration'', ''wasm1contract'']"
  let ?f1 = "GrantAuthorizationCmd_Flags
          (flagMaxCalls \<mapsto> FUint64 1, flagNoTokenTransfer \<mapsto> FBool True,
           flagExpiration \<mapsto> FInt64 1667979596, flagAllowAllMsgs \<mapsto> FBool True,
           flagAllowedMsgKeys \<mapsto> FStringSlice [''release''])"
  let ?f2 = "GrantAuthorizationCmd_Flags
          (flagMaxCalls \<mapsto> FUint64 1, flagNoTokenTransfer \<mapsto> FBool True,
           flagExpiration \<mapsto> FInt64 1667979596)"
  let ?f3 = "GrantAuthorizationCmd_Flags
          (flagMaxCalls \<mapsto> FUint64 1, flagNoTokenTransfer \<mapsto> FBool True,
           flagExpiration \<mapsto> FInt64 1667979596,
           flagAllowedRawMsgs \<mapsto> FStringSlice [''{}''])"
  have g: "AccAddressFromBech32 stub_Env ''wasm1grantee'' = Inr ''grantee''"
    and c: "AccAddressFromBech32 stub_Env ''wasm1contract'' = Inr ''contract''"
    by (simp_all add: stub_Env_def)
  have lim: "GrantAuthorizationCmd_limit stub_Env '''' 1 True = Inr (NewMaxCallsLimit 1)"
    by (simp add: GrantAuthorizationCmd_limit_def)
  have nz: "(1667979596 :: 64 word) \<noteq> 0" by simp
  have k1: "GetStringSlice ?f1 flagAllowedMsgKeys = Inr [''release'']"
    and r1: "GetStringSlice ?f1 flagAllowedRawMsgs = Inr []"
    and m1: "GetString ?f1 flagMaxFunds = Inr ''''"
    and n1: "GetUint64 ?f1 flagMaxCalls = Inr 1"
    and e1: "GetInt64 ?f1 flagExpiration = Inr 1667979596"
    and a1: "GetBool ?f1 flagAllowAllMsgs = Inr True"
    and t1: "GetBool ?f1 flagNoTokenTransfer = Inr True"
    by (simp_all add: GrantAuthorizationCmd_Flags_def GetStringSlice_def GetString_def
          GetUint64_def GetInt64_def GetBool_def)
  have k2: "GetStringSlice ?f2 flagAllowedMsgKeys = Inr []"
    and r2: "GetStringSlice ?f2 flagAllowedRawMsgs = Inr []"
    and m2: "GetString ?f2 flagMaxFunds = Inr ''''"
    and n2: "GetUint64 ?f2 flagMaxCalls = Inr 1"
    and e2: "GetInt64 ?f2 flagExpiration = Inr 1667979596"
    and a2: "GetBool ?f2 flagAllowAllMsgs = Inr False"
    and t2: "GetBool ?f2 flagNoTokenTransfer = Inr True"
    by (simp_all add: GrantAuthorizationCmd_Flags_def GetStringSlice_def GetString_def
          GetUint64_def GetInt64_def GetBool_def)
  have k3: "GetStringSlice ?f3 flagAllowedMsgKeys = Inr []"
    and r3: "GetStringSlice ?f3 flagAllowedRawMsgs = Inr [''{}'']"
    and m3: "GetString ?f3 flagMaxFunds = Inr ''''"
    and n3: "GetUint64 ?f3 flagMaxCalls = Inr 1"
    and e3: "GetInt64 ?f3 flagExpiration = Inr 1667979596"
    and a3: "GetBool ?f3 flagAllowAllMsgs = Inr False"
    and t3: "GetBool ?f3 flagNoTokenTransfer = Inr True"
    by (simp_all add: GrantAuthorizationCmd_Flags_def GetStringSlice_def GetString_def
          GetUint64_def GetInt64_def GetBool_def)
  note T1 = GrantAuthorizationCmd_filter_exclusive[OF g c k1 r1 m1 n1 e1 nz a1 t1 lim,
      of stub_Context "''migration''"]
  note T2 = GrantAuthorizationCmd_filter_exclusive[OF g c k2 r2 m2 n2 e2 nz a2 t2 lim,
      of stub_Context "''migration''"]
  note T3 = GrantAuthorizationCmd_filter_exclusive[OF g c k3 r3 m3 n3 e3 nz a3 t3 lim,
      of stub_Context "''migration''"]
  have two: "GrantAuthorizationCmd stub_Env (Inr stub_Context) ?args ?f1 =
     Inl (New ''cannot set more than one filter within one grant'')"
    using T1 by simp
  have none: "GrantAuthorizationCmd stub_Env (Inr stub_Context) ?args ?f2 =
     Inl (New ''invalid filter setup'')"
    using T2 by simp
  have run: "GrantAuthorizationCmd stub_Env (Inr stub_Context) ?args ?f3 =
     GrantAuthorizationCmd_grant stub_Env stub_Context ?f3 ?args ''grantee'' ''contract''
       (NewMaxCallsLimit 1) (NewAcceptedMessagesFilter [''{}''])"
    using T3 by simp
  have raw: "GrantAuthorizationCmd stub_Env (Inr stub_Context) ?args ?f3 =
     Inr (MsgGrant ''granter'' ''grantee''
            (NewContractMigrationAuthorization
               (ContractGrant ''contract'' (NewMaxCallsLimit 1)
                  (NewAcceptedMessagesFilter [''{}''])))
            (Some (time_Unix 1667979596 0)))"
    unfolding run
    by (simp add: GrantAuthorizationCmd_grant_def getExpireTime_def e3 stub_Env_def
          stub_Context_def)
  from two none raw show ?thesis by blast
qed

text \<open>
  Claim C6. Once the client context, the two addresses and the flags allow-msg-keys,
  allow-raw-msgs, max-funds, max-calls and expiration have been read, an expiration of
  zero makes the command fail with \<^verbatim>\<open>expiration must be set\<close>, whatever the values of
  the limit and filter flags are (valid or not) and whatever the grant kind is: the
  limit and the filter are not looked at.
\<close>

theorem GrantAuthorizationCmd_expiration_first:
  assumes "AccAddressFromBech32 env granteeStr = Inr grantee"
    and "AccAddressFromBech32 env contractStr = Inr contract"
    and "GetStringSlice flags flagAllowedMsgKeys = Inr msgKeys"
    and "GetStringSlice flags flagAllowedRawMsgs = Inr rawMsgs"
    and "GetString flags flagMaxFunds = Inr maxFundsStr"
    and "GetUint64 flags flagMaxCalls = Inr maxCalls"
    and "GetInt64 flags flagExpiration = Inr 0"
  shows "GrantAuthorizationCmd env (Inr clientCtx) [granteeStr, kind, contractStr] flags =
           Inl (New ''expiration must be set'')"
  unfolding GrantAuthorizationCmd_def using assms by simp


theorem GrantAuthorizationCmd_expiration_first_witness:
  "GrantAuthorizationCmd stub_Env (Inr stub_Context)
       [''wasm1grantee'', ''execution'', ''wasm1contract''] GrantAuthorizationCmd_Flags =
     Inl (New ''expiration must be set'')
   \<and> GrantAuthorizationCmd stub_Env (Inr stub_Context)
       [''wasm1grantee'', ''execution'', ''wasm1contract'']
       (GrantAuthorizationCmd_Flags
          (flagMaxCalls \<mapsto> FUint64 1, flagNoTokenTransfer \<mapsto> FBool True,
           flagAllowAllMsgs \<mapsto> FBool True)) =
     Inl (New ''expiration must be set'')"
proof -
  let ?f1 = "GrantAuthorizationCmd_Flags"
  let ?f2 = "GrantAuthorizationCmd_Flags
          (flagMaxCalls \<mapsto> FUint64 1, flagNoTokenTransfer \<mapsto> FBool True,
           flagAllowAllMsgs \<mapsto> FBool True)"
  have g: "AccAddressFromBech32 stub_Env ''wasm1grantee'' = Inr ''grantee''"
    and c: "AccAddressFromBech32 stub_Env ''wasm1contract'' = Inr ''contract''"
    by (simp_all add: stub_Env_def)
  have k1: "GetStringSlice ?f1 flagAllowedMsgKeys = Inr []"
    and r1: "GetStringSlice ?f1 flagAllowedRawMsgs = Inr []"
    and m1: "GetString ?f1 flagMaxFunds = Inr ''''"
    and n1: "GetUint64 ?f1 flagMaxCalls = Inr 0"
    and e1: "GetInt64 ?f1 flagExpiration = Inr 0"
    by (simp_all add: GrantAuthorizationCmd_Flags_def GetStringSlice_def GetString_def
          GetUint64_def GetInt64_def)
  have k2: "GetStringSlice ?f2 flagAllowedMsgKeys = Inr []"
    and r2: "GetStringSlice ?f2 flagAllowedRawMsgs = Inr []"
    and m2: "GetString ?f2 flagMaxFunds = Inr ''''"
    and n2: "GetUint64 ?f2 flagMaxCalls = Inr 1"
    and e2: "GetInt64 ?f2 flagExpiration = Inr 0"
    by (simp_all add: GrantAuthorizationCmd_Flags_def GetStringSlice_def GetString_def
          GetUint64_def GetInt64_def)
  from GrantAuthorizationCmd_expiration_first[OF g c k1 r1 m1 n1 e1,
         of stub_Context "''execution''"]
       GrantAuthorizationCmd_expiration_first[OF g c k2 r2 m2 n2 e2,
         of stub_Context "''execution''"]
  show ?thesis by blast
qed

lemma GrantAuthorizationCmd_limit_no_zero_calls:
  "GrantAuthorizationCmd_limit env maxFundsStr maxCalls noTokenTransfer = Inr limit \<Longrightarrow>
   limit \<noteq> NewMaxCallsLimit 0 \<and> (\<forall>maxFunds. limit \<noteq> NewCombinedLimit 0 maxFunds)"
  by (auto simp: GrantAuthorizationCmd_limit_cases split: sum.splits if_splits)

lemma GrantAuthorizationCmd_limit_other_grant:
  "GrantAuthorizationCmd_limit (env\<lparr>NewContractGrant := g\<rparr>) maxFundsStr maxCalls noTokenTransfer =
   GrantAuthorizationCmd_limit env maxFundsStr maxCalls noTokenTransfer"
  by (simp add: GrantAuthorizationCmd_limit_def)

lemma GrantAuthorizationCmd_grant_other_grant:
  "g contract limit filter_x = NewContractGrant env contract limit filter_x \<Longrightarrow>
   GrantAuthorizationCmd_grant (env\<lparr>NewContractGrant := g\<rparr>) clientCtx flags args grantee contract
     limit filter_x =
   GrantAuthorizationCmd_grant env clientCtx flags args grantee contract limit filter_x"
  by (simp add: GrantAuthorizationCmd_grant_def split: sum.splits option.splits)

lemma GrantAuthorizationCmd_other_grant:
  assumes "\<And>contract limit filter_x.
      limit \<noteq> NewMaxCallsLimit 0 \<Longrightarrow> (\<forall>maxFunds. limit \<noteq> NewCombinedLimit 0 maxFunds) \<Longrightarrow>
      g contract limit filter_x = NewContractGrant env contract limit filter_x"
  shows "GrantAuthorizationCmd (env\<lparr>NewContractGrant := g\<rparr>) GetClientTxContext args flags =
         GrantAuthorizationCmd env GetClientTxContext args flags"
proof -
  have tail: "(case GrantAuthorizationCmd_limit env m c n of
        Inl err \<Rightarrow> Inl err
      | Inr limit \<Rightarrow>
      (case GrantAuthorizationCmd_filter a k r of
        Inl err \<Rightarrow> Inl err
      | Inr filter_x \<Rightarrow>
      GrantAuthorizationCmd_grant (env\<lparr>NewContractGrant := g\<rparr>) cc flags args gr co limit filter_x))
     = (case GrantAuthorizationCmd_limit env m c n of
        Inl err \<Rightarrow> Inl err
      | Inr limit \<Rightarrow>
      (case GrantAuthorizationCmd_filter a k r of
        Inl err \<Rightarrow> Inl err
      | Inr filter_x \<Rightarrow>
      GrantAuthorizationCmd_grant env cc flags args gr co limit filter_x))"
    for m c n a k r cc gr co
  proof (cases "GrantAuthorizationCmd_limit env m c n")
    case (Inl e)
    then show ?thesis by simp
  next
    case (Inr limit)
    from GrantAuthorizationCmd_limit_no_zero_calls[OF Inr]
    have "g co limit f = NewContractGrant env co limit f" for f
      using assms by blast
    then show ?thesis
      using Inr by (simp add: GrantAuthorizationCmd_grant_other_grant split: sum.splits)
  qed
  show ?thesis
    unfolding GrantAuthorizationCmd_def GrantAuthorizationCmd_limit_other_grant
    by (simp add: tail split: sum.splits)
qed


text \<open>
  Claim C10. A max-calls flag of zero, which is also its registered default when the flag
  is left unset, never gives a limit with a call count of zero. Once the client context,
  the two addresses and the flags have been read and the expiration is not zero, the
  command with max-calls zero, a non-empty max-funds that parses and no-token-transfer
  false goes on with the funds limit of the parsed funds (not with a combined limit of
  zero calls); with no-token-transfer true, or with max-funds empty, it fails with
  \<^verbatim>\<open>invalid limit setup\<close> (there is no calls limit of zero). For every input, whatever
  the flags, the command never builds a grant from a limit of zero calls: its result
  stays the same when \<^verbatim>\<open>NewContractGrant\<close> is replaced by any function that agrees with
  it on all limits other than the calls limit of zero and the combined limits of zero
  calls; and the limit switch never resolves to such a limit.
\<close>

theorem GrantAuthorizationCmd_zero_calls:
  assumes "AccAddressFromBech32 env granteeStr = Inr grantee"
    and "AccAddressFromBech32 env contractStr = Inr contract"
    and "GetStringSlice flags flagAllowedMsgKeys = Inr msgKeys"
    and "GetStringSlice flags flagAllowedRawMsgs = Inr rawMsgs"
    and "GetString flags flagMaxFunds = Inr maxFundsStr"
    and "GetUint64 flags flagMaxCalls = Inr 0"
    and "GetInt64 flags flagExpiration = Inr exp" and "exp \<noteq> 0"
    and "GetBool flags flagAllowAllMsgs = Inr allowAllMsgs"
    and "GetBool flags flagNoTokenTransfer = Inr noTokenTransfer"
  shows
    "(maxFundsStr \<noteq> '''' \<and> \<not> noTokenTransfer \<longrightarrow>
        (\<forall>maxFunds. ParseCoinsNormalized env maxFundsStr = Inr maxFunds \<longrightarrow>
           GrantAuthorizationCmd env (Inr clientCtx) [granteeStr, kind, contractStr] flags =
             (case GrantAuthorizationCmd_filter allowAllMsgs msgKeys rawMsgs of
                Inl err \<Rightarrow> Inl err
              | Inr filter_x \<Rightarrow>
                  GrantAuthorizationCmd_grant env clientCtx flags
                    [granteeStr, kind, contractStr] grantee contract
                    (NewMaxFundsLimit maxFunds) filter_x)))
     \<and> (noTokenTransfer \<or> maxFundsStr = '''' \<longrightarrow>
           GrantAuthorizationCmd env (Inr clientCtx) [granteeStr, kind, contractStr] flags =
             Inl (New ''invalid limit setup''))
     \<and> GetUint64 GrantAuthorizationCmd_Flags flagMaxCalls = Inr 0
     \<and> (\<forall>g. (\<forall>contract' limit filter_x.
                limit \<noteq> NewMaxCallsLimit 0 \<and> (\<forall>maxFunds. limit \<noteq> NewCombinedLimit 0 maxFunds)
                \<longrightarrow> g contract' limit filter_x = NewContractGrant env contract' limit filter_x)
           \<longrightarrow> (\<forall>GetClientTxContext args' flags'.
                  GrantAuthorizationCmd (env\<lparr>NewContractGrant := g\<rparr>) GetClientTxContext
                    args' flags' =
                  GrantAuthorizationCmd env GetClientTxContext args' flags'))
     \<and> (\<forall>maxFundsStr' maxCalls' noTokenTransfer' limit.
           GrantAuthorizationCmd_limit env maxFundsStr' maxCalls' noTokenTransfer' = Inr limit
           \<longrightarrow> limit \<noteq> NewMaxCallsLimit 0
               \<and> (\<forall>maxFunds. limit \<noteq> NewCombinedLimit 0 maxFunds))"
proof -
  note run = GrantAuthorizationCmd_after_expiration[OF assms, of clientCtx kind]
  have funds: "maxFundsStr \<noteq> '''' \<and> \<not> noTokenTransfer \<longrightarrow>
        (\<forall>maxFunds. ParseCoinsNormalized env maxFundsStr = Inr maxFunds \<longrightarrow>
           GrantAuthorizationCmd env (Inr clientCtx) [granteeStr, kind, contractStr] flags =
             (case GrantAuthorizationCmd_filter allowAllMsgs msgKeys rawMsgs of
                Inl err \<Rightarrow> Inl err
              | Inr filter_x \<Rightarrow>
                  GrantAuthorizationCmd_grant env clientCtx flags
                    [granteeStr, kind, contractStr] grantee contract
                    (NewMaxFundsLimit maxFunds) filter_x))"
    unfolding run by (simp add: GrantAuthorizationCmd_limit_cases)
  have bad: "noTokenTransfer \<or> maxFundsStr = '''' \<longrightarrow>
           GrantAuthorizationCmd env (Inr clientCtx) [granteeStr, kind, contractStr] flags =
             Inl (New ''invalid limit setup'')"
    unfolding run by (auto simp: GrantAuthorizationCmd_limit_cases)
  have unset: "GetUint64 GrantAuthorizationCmd_Flags flagMaxCalls = Inr 0"
    by (simp add: GrantAuthorizationCmd_Flags_def GetUint64_def)
  have other: "\<forall>g. (\<forall>contract' limit filter_x.
                limit \<noteq> NewMaxCallsLimit 0 \<and> (\<forall>maxFunds. limit \<noteq> NewCombinedLimit 0 maxFunds)
                \<longrightarrow> g contract' limit filter_x = NewContractGrant env contract' limit filter_x)
           \<longrightarrow> (\<forall>GetClientTxContext args' flags'.
                  GrantAuthorizationCmd (env\<lparr>NewContractGrant := g\<rparr>) GetClientTxContext
                    args' flags' =
                  GrantAuthorizationCmd env GetClientTxContext args' flags')"
    using GrantAuthorizationCmd_other_grant[of _ env] by blast
  have never: "\<forall>maxFundsStr' maxCalls' noTokenTransfer' limit.
           GrantAuthorizationCmd_limit env maxFundsStr' maxCalls' noTokenTransfer' = Inr limit
           \<longrightarrow> limit \<noteq> NewMaxCallsLimit 0
               \<and> (\<forall>maxFunds. limit \<noteq> NewCombinedLimit 0 maxFunds)"
    using GrantAuthorizationCmd_limit_no_zero_calls[of env] by blast
  from funds bad unset other never show ?thesis by (intro conjI)
qed

theorem GrantAuthorizationCmd_zero_calls_witness:
  "GrantAuthorizationCmd stub_Env (Inr stub_Context)
       [''wasm1grantee'', ''execution'', ''wasm1contract'']
       (GrantAuthorizationCmd_Flags
          (flagMaxFunds \<mapsto> FString ''100uwasm'', flagExpiration \<mapsto> FInt64 1667979596,
           flagAllowAllMsgs \<mapsto> FBool True)) =
     Inr (MsgGrant ''granter'' ''grantee''
            (NewContractExecutionAuthorization
               (ContractGrant ''contract''
                  (NewMaxFundsLimit [\<lparr>Denom = ''uwasm'', Amount = 100\<rparr>])
                  NewAllowAllMessagesFilter))
            (Some (time_Unix 1667979596 0)))
   \<and> GrantAuthorizationCmd stub_Env (Inr stub_Context)
       [''wasm1grantee'', ''execution'', ''wasm1contract'']
       (GrantAuthorizationCmd_Flags
          (flagMaxCalls \<mapsto> FUint64 0,
           flagMaxFunds \<mapsto> FString ''100uwasm'', flagExpiration \<mapsto> FInt64 1667979596,
           flagAllowAllMsgs \<mapsto> FBool True)) =
     Inr (MsgGrant ''granter'' ''grantee''
            (NewContractExecutionAuthorization
               (ContractGrant ''contract''
                  (NewMaxFundsLimit [\<lparr>Denom = ''uwasm'', Amount = 100\<rparr>])
                  NewAllowAllMessagesFilter))
            (Some (time_Unix 1667979596 0)))
   \<and> GrantAuthorizationCmd stub_Env (Inr stub_Context)
       [''wasm1grantee'', ''execution'', ''wasm1contract'']
       (GrantAuthorizationCmd_Flags
          (flagMaxCalls \<mapsto> FUint64 0, flagNoTokenTransfer \<mapsto> FBool True,
           flagExpiration \<mapsto> FInt64 1667979596, flagAllowAllMsgs \<mapsto> FBool True)) =
     Inl (New ''invalid limit setup'')"
proof -
  let ?args = "[''wasm1grantee'', ''execution'', ''wasm1contract'']"
  let ?f1 = "GrantAuthorizationCmd_Flags
          (flagMaxFunds \<mapsto> FString ''100uwasm'', flagExpiration \<mapsto> FInt64 1667979596,
           flagAllowAllMsgs \<mapsto> FBool True)"
  let ?f2 = "GrantAuthorizationCmd_Flags
          (flagMaxCalls \<mapsto> FUint64 0,
           flagMaxFunds \<mapsto> FString ''100uwasm'', flagExpiration \<mapsto> FInt64 1667979596,
           flagAllowAllMsgs \<mapsto> FBool True)"
  let ?f3 = "GrantAuthorizationCmd_Flags
          (flagMaxCalls \<mapsto> FUint64 0, flagNoTokenTransfer \<mapsto> FBool True,
           flagExpiration \<mapsto> FInt64 1667979596, flagAllowAllMsgs \<mapsto> FBool True)"
  let ?msg = "MsgGrant ''granter'' ''grantee''
            (NewContractExecutionAuthorization
               (ContractGrant ''contract''
                  (NewMaxFundsLimit [\<lparr>Denom = ''uwasm'', Amount = 100\<rparr>])
                  NewAllowAllMessagesFilter))
            (Some (time_Unix 1667979596 0))"
  have g: "AccAddressFromBech32 stub_Env ''wasm1grantee'' = Inr ''grantee''"
    and c: "AccAddressFromBech32 stub_Env ''wasm1contract'' = Inr ''contract''"
    and p: "ParseCoinsNormalized stub_Env ''100uwasm'' = Inr [\<lparr>Denom = ''uwasm'', Amount = 100\<rparr>]"
    by (simp_all add: stub_Env_def)
  have nz: "(1667979596 :: 64 word) \<noteq> 0" by simp
  have k1: "GetStringSlice ?f1 flagAllowedMsgKeys = Inr []"
    and r1: "GetStringSlice ?f1 flagAllowedRawMsgs = Inr []"
    and m1: "GetString ?f1 flagMaxFunds = Inr ''100uwasm''"
    and n1: "GetUint64 ?f1 flagMaxCalls = Inr 0"
    and e1: "GetInt64 ?f1 flagExpiration = Inr 1667979596"
    and a1: "GetBool ?f1 flagAllowAllMsgs = Inr True"
    and t1: "GetBool ?f1 flagNoTokenTransfer = Inr False"
    by (simp_all add: GrantAuthorizationCmd_Flags_def GetStringSlice_def GetString_def
          GetUint64_def GetInt64_def GetBool_def)
  have k2: "GetStringSlice ?f2 flagAllowedMsgKeys = Inr []"
    and r2: "GetStringSlice ?f2 flagAllowedRawMsgs = Inr []"
    and m2: "GetString ?f2 flagMaxFunds = Inr ''100uwasm''"
    and n2: "GetUint64 ?f2 flagMaxCalls = Inr 0"
    and e2: "GetInt64 ?f2 flagExpiration = Inr 1667979596"
    and a2: "GetBool ?f2 flagAllowAllMsgs = Inr True"
    and t2: "GetBool ?f2 flagNoTokenTransfer = Inr False"
    by (simp_all add: GrantAuthorizationCmd_Flags_def GetStringSlice_def GetString_def
          GetUint64_def GetInt64_def GetBool_def)
  have k3: "GetStringSlice ?f3 flagAllowedMsgKeys = Inr []"
    and r3: "GetStringSlice ?f3 flagAllowedRawMsgs = Inr []"
    and m3: "GetString ?f3 flagMaxFunds = Inr ''''"
    and n3: "GetUint64 ?f3 flagMaxCalls = Inr 0"
    and e3: "GetInt64 ?f3 flagExpiration = Inr 1667979596"
    and a3: "GetBool ?f3 flagAllowAllMsgs = Inr True"
    and t3: "GetBool ?f3 flagNoTokenTransfer = Inr True"
    by (simp_all add: GrantAuthorizationCmd_Flags_def GetStringSlice_def GetString_def
          GetUint64_def GetInt64_def GetBool_def)
  note T1 = GrantAuthorizationCmd_zero_calls[OF g c k1 r1 m1 n1 e1 nz a1 t1,
      of stub_Context "''execution''"]
  note T2 = GrantAuthorizationCmd_zero_calls[OF g c k2 r2 m2 n2 e2 nz a2 t2,
      of stub_Context "''execution''"]
  note T3 = GrantAuthorizationCmd_zero_calls[OF g c k3 r3 m3 n3 e3 nz a3 t3,
      of stub_Context "''execution''"]
  have run1: "GrantAuthorizationCmd stub_Env (Inr stub_Context) ?args ?f1 =
     (case GrantAuthorizationCmd_filter True [] [] of
        Inl err \<Rightarrow> Inl err
      | Inr filter_x \<Rightarrow>
          GrantAuthorizationCmd_grant stub_Env stub_Context ?f1 ?args ''grantee'' ''contract''
            (NewMaxFundsLimit [\<lparr>Denom = ''uwasm'', Amount = 100\<rparr>]) filter_x)"
    using T1 p by simp
  have run2: "GrantAuthorizationCmd stub_Env (Inr stub_Context) ?args ?f2 =
     (case GrantAuthorizationCmd_filter True [] [] of
        Inl err \<Rightarrow> Inl err
      | Inr filter_x \<Rightarrow>
          GrantAuthorizationCmd_grant stub_Env stub_Context ?f2 ?args ''grantee'' ''contract''
            (NewMaxFundsLimit [\<lparr>Denom = ''uwasm'', Amount = 100\<rparr>]) filter_x)"
    using T2 p by simp
  have ok1: "GrantAuthorizationCmd stub_Env (Inr stub_Context) ?args ?f1 = Inr ?msg"
    unfolding run1
    by (simp add: GrantAuthorizationCmd_filter_def GrantAuthorizationCmd_grant_def
          getExpireTime_def e1 stub_Env_def stub_Context_def)
  have ok2: "GrantAuthorizationCmd stub_Env (Inr stub_Context) ?args ?f2 = Inr ?msg"
    unfolding run2
    by (simp add: GrantAuthorizationCmd_filter_def GrantAuthorizationCmd_grant_def
          getExpireTime_def e2 stub_Env_def stub_Context_def)
  have bad: "GrantAuthorizationCmd stub_Env (Inr stub_Context) ?args ?f3 =
     Inl (New ''invalid limit setup'')"
    using T3 by simp
  from ok1 ok2 bad show ?thesis by blast
qed

section \<open>Store-code authorization grant\<close>

lemma getExpireTime_zero:
  "GetInt64 flags flagExpiration = Inr 0 \<Longrightarrow> getExpireTime flags = Inr None"
  by (simp add: getExpireTime_def)

text \<open>
  Claim C9. In the store-code grant command an expiration flag of zero, which is also its
  registered default when the flag is left unset, is no error: \<^verbatim>\<open>getExpireTime\<close> returns
  no expiration, and once the grantee and the code grants have been parsed the command
  builds the grant message with no expiration and hands it to the broadcast. The
  contract grant command, given the same flag value, fails with
  \<^verbatim>\<open>expiration must be set\<close> once its addresses and flags have been read.
\<close>

theorem GrantStoreCodeAuthorizationCmd_no_expiration:
  assumes "GetInt64 flags flagExpiration = Inr 0"
    and "AccAddressFromBech32 env granteeStr = Inr grantee"
    and "parseStoreCodeGrants env (token # tokens) = Inr grants"
  shows
    "getExpireTime flags = Inr None
     \<and> GetInt64 GrantStoreCodeAuthorizationCmd_Flags flagExpiration = Inr 0
     \<and> GrantStoreCodeAuthorizationCmd env (Inr clientCtx) (granteeStr # token # tokens) flags =
         (case NewMsgGrant env (GetFromAddress clientCtx) grantee
                 (NewStoreCodeAuthorization grants) None of
            Inl err \<Rightarrow> Inl (Callee err)
          | Inr grantMsg \<Rightarrow>
              (case GenerateOrBroadcastTxCLI env clientCtx flags grantMsg of
                 Some err \<Rightarrow> Inl (Callee err)
               | None \<Rightarrow> Inr grantMsg))
     \<and> (\<forall>contractStr contract kind msgKeys rawMsgs maxFundsStr maxCalls.
           AccAddressFromBech32 env contractStr = Inr contract
           \<and> GetStringSlice flags flagAllowedMsgKeys = Inr msgKeys
           \<and> GetStringSlice flags flagAllowedRawMsgs = Inr rawMsgs
           \<and> GetString flags flagMaxFunds = Inr maxFundsStr
           \<and> GetUint64 flags flagMaxCalls = Inr maxCalls
           \<longrightarrow> GrantAuthorizationCmd env (Inr clientCtx) [granteeStr, kind, contractStr] flags =
                 Inl (New ''expiration must be set''))"
proof -
  have a: "getExpireTime flags = Inr None"
    using assms(1) by (rule getExpireTime_zero)
  have b: "GetInt64 GrantStoreCodeAuthorizationCmd_Flags flagExpiration = Inr 0"
    by (simp add: GrantStoreCodeAuthorizationCmd_Flags_def GetInt64_def)
  have c: "GrantStoreCodeAuthorizationCmd env (Inr clientCtx) (granteeStr # token # tokens) flags =
         (case NewMsgGrant env (GetFromAddress clientCtx) grantee
                 (NewStoreCodeAuthorization grants) None of
            Inl err \<Rightarrow> Inl (Callee err)
          | Inr grantMsg \<Rightarrow>
              (case GenerateOrBroadcastTxCLI env clientCtx flags grantMsg of
                 Some err \<Rightarrow> Inl (Callee err)
               | None \<Rightarrow> Inr grantMsg))"
    unfolding GrantStoreCodeAuthorizationCmd_def using assms(2,3) a by simp
  have d: "GrantAuthorizationCmd env (Inr clientCtx) [granteeStr, kind, contractStr] flags =
                 Inl (New ''expiration must be set'')"
    if "AccAddressFromBech32 env contractStr = Inr contract"
      "GetStringSlice flags flagAllowedMsgKeys = Inr msgKeys"
      "GetStringSlice flags flagAllowedRawMsgs = Inr rawMsgs"
      "GetString flags flagMaxFunds = Inr maxFundsStr"
      "GetUint64 flags flagMaxCalls = Inr maxCalls"
    for contractStr contract kind msgKeys rawMsgs maxFundsStr maxCalls
    unfolding GrantAuthorizationCmd_def using assms(1,2) that by simp
  from a b c d show ?thesis by blast
qed

theorem GrantStoreCodeAuthorizationCmd_no_expiration_witness:
  "GrantStoreCodeAuthorizationCmd stub_Env (Inr stub_Context)
       [''wasm1grantee'', ''abc:*'', ''ff:nobody''] GrantStoreCodeAuthorizationCmd_Flags =
     Inr (MsgGrant ''granter'' ''grantee''
            (NewStoreCodeAuthorization
               [\<lparr>CodeHash = ''abc'', InstantiatePermission = None\<rparr>,
                \<lparr>CodeHash = ''ff'', InstantiatePermission = Some AllowNobody\<rparr>])
            None)
   \<and> GrantAuthorizationCmd stub_Env (Inr stub_Context)
       [''wasm1grantee'', ''execution'', ''wasm1contract'']
       (GrantAuthorizationCmd_Flags
          (flagMaxCalls \<mapsto> FUint64 1, flagNoTokenTransfer \<mapsto> FBool True,
           flagAllowAllMsgs \<mapsto> FBool True)) =
     Inl (New ''expiration must be set'')"
proof -
  let ?f1 = "GrantStoreCodeAuthorizationCmd_Flags"
  let ?f2 = "GrantAuthorizationCmd_Flags
          (flagMaxCalls \<mapsto> FUint64 1, flagNoTokenTransfer \<mapsto> FBool True,
           flagAllowAllMsgs \<mapsto> FBool True)"
  let ?gs = "[\<lparr>CodeHash = ''abc'', InstantiatePermission = None\<rparr>,
                \<lparr>CodeHash = ''ff'', InstantiatePermission = Some AllowNobody\<rparr>]"
  have g: "AccAddressFromBech32 stub_Env ''wasm1grantee'' = Inr ''grantee''"
    and c: "AccAddressFromBech32 stub_Env ''wasm1contract'' = Inr ''contract''"
    by (simp_all add: stub_Env_def)
  have p: "parseStoreCodeGrants stub_Env [''abc:*'', ''ff:nobody''] = Inr ?gs"
    by (simp add: parseStoreCodeGrants_def stub_Env_def)
  have e1: "GetInt64 ?f1 flagExpiration = Inr 0"
    by (simp add: GrantStoreCodeAuthorizationCmd_Flags_def GetInt64_def)
  have k2: "GetStringSlice ?f2 flagAllowedMsgKeys = Inr []"
    and r2: "GetStringSlice ?f2 flagAllowedRawMsgs = Inr []"
    and m2: "GetString ?f2 flagMaxFunds = Inr ''''"
    and n2: "GetUint64 ?f2 flagMaxCalls = Inr 1"
    and e2: "GetInt64 ?f2 flagExpiration = Inr 0"
    by (simp_all add: GrantAuthorizationCmd_Flags_def GetStringSlice_def GetString_def
          GetUint64_def GetInt64_def)
  note T1 = GrantStoreCodeAuthorizationCmd_no_expiration[OF e1 g p, of stub_Context]
  note T2 = GrantStoreCodeAuthorizationCmd_no_expiration[OF e2 g p, of stub_Context]
  have run: "GrantStoreCodeAuthorizationCmd stub_Env (Inr stub_Context)
       [''wasm1grantee'', ''abc:*'', ''ff:nobody''] ?f1 =
         (case NewMsgGrant stub_Env (GetFromAddress stub_Context) ''grantee''
                 (NewStoreCodeAuthorization ?gs) None of
            Inl err \<Rightarrow> Inl (Callee err)
          | Inr grantMsg \<Rightarrow>
              (case GenerateOrBroadcastTxCLI stub_Env stub_Context ?f1 grantMsg of
                 Some err \<Rightarrow> Inl (Callee err)
               | None \<Rightarrow> Inr grantMsg))"
    using T1 by blast
  have ok: "GrantStoreCodeAuthorizationCmd stub_Env (Inr stub_Context)
       [''wasm1grantee'', ''abc:*'', ''ff:nobody''] ?f1 =
     Inr (MsgGrant ''granter'' ''grantee'' (NewStoreCodeAuthorization ?gs) None)"
    unfolding run by (simp add: stub_Env_def stub_Context_def)
  have contrast: "GrantAuthorizationCmd stub_Env (Inr stub_Context)
       [''wasm1grantee'', ''execution'', ''wasm1contract''] ?f2 =
     Inl (New ''expiration must be set'')"
    using T2 c k2 r2 m2 n2 by blast
  from ok contrast show ?thesis by blast
qed

section \<open>Deterministic-address builder\<close>

lemma hex_DecodeString_Inr_iff:
  "(\<exists>dst. hex_DecodeString s = Inr dst) \<longleftrightarrow>
     even (length s) \<and> (\<forall>c\<in>set s. fromHexChar c \<noteq> None)"
  by (induction s rule: hex_DecodeString.induct) (auto split: option.splits sum.splits)

lemma hex_DecodeString_fails:
  "odd (length s) \<or> (\<exists>c\<in>set s. fromHexChar c = None) \<Longrightarrow> \<exists>err. hex_DecodeString s = Inl err"
  using hex_DecodeString_Inr_iff[of s] by (cases "hex_DecodeString s") auto

lemma InstantiateContract2Cmd_RunE_salt:
  "decoder salt = Inl err \<Longrightarrow>
   InstantiateContract2Cmd_RunE env decoder GetClientTxContext [rawCodeID, initMsg, salt] flags =
     (case GetClientTxContext of
        Inl err' \<Rightarrow> Inl (Callee err')
      | Inr clientCtx \<Rightarrow> Inl (Errorf ''salt: %w'' [E err]))"
  unfolding InstantiateContract2Cmd_RunE_def by (simp split: sum.splits)

text \<open>
  Claim C7. In the deterministic-address command the salt is decoded before the shared
  instantiate fields are looked at. If the decoder rejects the salt, the command, once it
  has its client context, fails with the salt error \<^verbatim>\<open>salt: ...\<close> wrapping the decoder's
  error; whatever the result of reading the client context, the command fails and its
  result is the same for every code id, init message, flag set and collaborator, so
  \<^verbatim>\<open>parseInstantiateArgs\<close> has no part in it. With \<^verbatim>\<open>hex.DecodeString\<close> as the
  decoder, every salt of odd length and every salt with a byte that is not a hexadecimal
  digit is rejected in this way.
\<close>

theorem InstantiateContract2Cmd_salt_first:
  "(\<forall>err. decoder salt = Inl err \<longrightarrow>
      InstantiateContract2Cmd_RunE env decoder (Inr clientCtx) [rawCodeID, initMsg, salt] flags =
        Inl (Errorf ''salt: %w'' [E err])
      \<and> (\<forall>env' rawCodeID' initMsg' flags'.
           InstantiateContract2Cmd_RunE env' decoder GetClientTxContext
             [rawCodeID', initMsg', salt] flags' =
           InstantiateContract2Cmd_RunE env decoder GetClientTxContext
             [rawCodeID, initMsg, salt] flags)
      \<and> (\<exists>e. InstantiateContract2Cmd_RunE env decoder GetClientTxContext
             [rawCodeID, initMsg, salt] flags = Inl e))
   \<and> (odd (length salt) \<or> (\<exists>c\<in>set salt. fromHexChar c = None) \<longrightarrow>
        (\<exists>err. hex_DecodeString salt = Inl err \<and>
           InstantiateContract2Cmd_RunE env hex_DecodeString (Inr clientCtx)
             [rawCodeID, initMsg, salt] flags =
             Inl (Errorf ''salt: %w'' [E err])))"
proof (intro conjI allI impI)
  fix err assume d: "decoder salt = Inl err"
  note run = InstantiateContract2Cmd_RunE_salt[of decoder salt err, OF d]
  show "InstantiateContract2Cmd_RunE env decoder (Inr clientCtx) [rawCodeID, initMsg, salt] flags =
        Inl (Errorf ''salt: %w'' [E err])"
    by (simp add: run)
  show "\<exists>e. InstantiateContract2Cmd_RunE env decoder GetClientTxContext
             [rawCodeID, initMsg, salt] flags = Inl e"
    by (simp add: run split: sum.splits)
  fix env' rawCodeID' initMsg' flags'
  show "InstantiateContract2Cmd_RunE env' decoder GetClientTxContext
             [rawCodeID', initMsg', salt] flags' =
           InstantiateContract2Cmd_RunE env decoder GetClientTxContext
             [rawCodeID, initMsg, salt] flags"
    by (simp only: run)
next
  assume "odd (length salt) \<or> (\<exists>c\<in>set salt. fromHexChar c = None)"
  then obtain err where e: "hex_DecodeString salt = Inl err"
    using hex_DecodeString_fails by blast
  from InstantiateContract2Cmd_RunE_salt[of hex_DecodeString salt err, OF e,
         of env "Inr clientCtx" rawCodeID initMsg flags] e
  show "\<exists>err. hex_DecodeString salt = Inl err \<and>
           InstantiateContract2Cmd_RunE env hex_DecodeString (Inr clientCtx)
             [rawCodeID, initMsg, salt] flags =
             Inl (Errorf ''salt: %w'' [E err])"
    by simp
qed



theorem InstantiateContract2Cmd_salt_first_witness:
  "InstantiateContract2Cmd_RunE stub_Env hex_DecodeString (Inr stub_Context)
       [''not a number'', ''{}'', ''abc''] Map.empty =
     Inl (Errorf ''salt: %w'' [E HexErrLength])
   \<and> InstantiateContract2Cmd_RunE stub_Env hex_DecodeString (Inr stub_Context)
       [''1'', ''{}'', ''abc'']
       [flagAmount \<mapsto> FString '''', flagLabel \<mapsto> FString ''local'',
        flagAdmin \<mapsto> FString '''', flagNoAdmin \<mapsto> FBool True, flagFixMsg \<mapsto> FBool False] =
     Inl (Errorf ''salt: %w'' [E HexErrLength])
   \<and> InstantiateContract2Cmd_RunE stub_Env hex_DecodeString (Inr stub_Context)
       [''1'', ''{}'', ''74657374696e67'']
       [flagAmount \<mapsto> FString '''', flagLabel \<mapsto> FString ''local'',
        flagAdmin \<mapsto> FString '''', flagNoAdmin \<mapsto> FBool True, flagFixMsg \<mapsto> FBool False] =
     Inr (MsgInstantiateContract2 ''wasm1granter'' '''' 1 ''local'' ''{}'' [] ''testing'' False)"
proof -
  let ?flags = "[flagAmount \<mapsto> FString '''', flagLabel \<mapsto> FString ''local'',
        flagAdmin \<mapsto> FString '''', flagNoAdmin \<mapsto> FBool True, flagFixMsg \<mapsto> FBool False]"
  have d: "hex_DecodeString ''abc'' = Inl HexErrLength"
    by (simp add: fromHexChar_def)
  have a: "InstantiateContract2Cmd_RunE stub_Env hex_DecodeString (Inr stub_Context)
       [''not a number'', ''{}'', ''abc''] Map.empty =
     Inl (Errorf ''salt: %w'' [E HexErrLength])"
    using InstantiateContract2Cmd_salt_first[of hex_DecodeString "''abc''" stub_Env stub_Context
         "''not a number''" "''{}''" Map.empty "Inr stub_Context"] d
    by blast
  have b: "InstantiateContract2Cmd_RunE stub_Env hex_DecodeString (Inr stub_Context)
       [''1'', ''{}'', ''abc''] ?flags =
     Inl (Errorf ''salt: %w'' [E HexErrLength])"
    using InstantiateContract2Cmd_salt_first[of hex_DecodeString "''abc''" stub_Env stub_Context
         "''1''" "''{}''" ?flags "Inr stub_Context"] d
    by blast
  have s: "hex_DecodeString ''74657374696e67'' = Inr ''testing''"
    by (simp add: fromHexChar_def char_of_def bit_Suc_0_iff)
  have u: "strconv_ParseUint ''1'' = Inr 1"
    by (simp add: strconv_ParseUint_def)
  have f: "GetBool ?flags flagFixMsg = Inr False"
    by (simp add: GetBool_def)
  have sender: "AccAddress_String stub_Env (GetFromAddress stub_Context) = ''wasm1granter''"
    by (simp add: stub_Env_def stub_Context_def)
  have p: "parseInstantiateArgs stub_Env ''1'' ''{}'' (Keyring stub_Context) ''wasm1granter''
             ?flags =
           Inr (MsgInstantiateContract ''wasm1granter'' '''' 1 ''local'' ''{}'' [])"
    by (simp add: parseInstantiateArgs_def return_ValidateBasic_def u
          GetString_def GetBool_def stub_Env_def)
  have g: "GenerateOrBroadcastTxCLI stub_Env ctx fl m = None" for ctx fl m
    by (simp add: stub_Env_def)
  have c: "InstantiateContract2Cmd_RunE stub_Env hex_DecodeString (Inr stub_Context)
       [''1'', ''{}'', ''74657374696e67''] ?flags =
     Inr (MsgInstantiateContract2 ''wasm1granter'' '''' 1 ''local'' ''{}'' [] ''testing'' False)"
    by (simp add: InstantiateContract2Cmd_RunE_def s f sender p g del: hex_DecodeString.simps)
  from a b c show ?thesis by blast
qed

section \<open>Execute request builder\<close>

text \<open>
  Claim C8. Given the amount flag (a string flag named \<^verbatim>\<open>amount\<close>), the execute request
  builder fails only when the amount does not parse as coins: for every sender, contract
  address string and payload, if \<^verbatim>\<open>ParseCoinsNormalized\<close> accepts the amount the builder
  returns the request with the sender's address string, the contract address string as
  given (it is not parsed), the payload bytes as given and the parsed funds; and every
  error of the builder is the error of the coin parser.
\<close>

theorem parseExecuteArgs_amount_only:
  assumes "GetString flags flagAmount = Inr amountStr"
  shows
    "(\<forall>amount. ParseCoinsNormalized env amountStr = Inr amount \<longrightarrow>
        parseExecuteArgs env contractAddr execMsg sender flags =
          Inr (MsgExecuteContract (AccAddress_String env sender) contractAddr execMsg amount))
     \<and> (\<forall>err. parseExecuteArgs env contractAddr execMsg sender flags = Inl err \<longrightarrow>
          (\<exists>e. ParseCoinsNormalized env amountStr = Inl e \<and> err = Callee e))
     \<and> (\<forall>msg. parseExecuteArgs env contractAddr execMsg sender flags = Inr msg \<longrightarrow>
          Contract msg = contractAddr \<and> Msg msg = execMsg)"
  unfolding parseExecuteArgs_def using assms by (auto split: sum.splits)

theorem parseExecuteArgs_amount_only_witness:
  "parseExecuteArgs stub_Env ''not an address'' ''{}'' ''sender''
     [flagAmount \<mapsto> FString ''100uwasm''] =
   Inr (MsgExecuteContract ''wasm1sender'' ''not an address'' ''{}''
          [\<lparr>Denom = ''uwasm'', Amount = 100\<rparr>])"
proof -
  have f: "GetString [flagAmount \<mapsto> FString ''100uwasm''] flagAmount = Inr ''100uwasm''"
    by (simp add: GetString_def)
  have p: "ParseCoinsNormalized stub_Env ''100uwasm'' = Inr [\<lparr>Denom = ''uwasm'', Amount = 100\<rparr>]"
    by (simp add: stub_Env_def)
  have s: "AccAddress_String stub_Env ''sender'' = ''wasm1sender''"
    by (simp add: stub_Env_def)
  from parseExecuteArgs_amount_only[OF f, of stub_Env "''not an address''"
         "''{}''" "''sender''"] p s
  show ?thesis by simp
qed

section \<open>Instantiate request builder\<close>

text \<open>
  Claim C3. With the other inputs valid (the code id parses, the amount flag parses as
  coins, the label is not empty, and the admin and no-admin flags are read), the admin
  check passes exactly when one of the two holds, a non-empty admin or no-admin: the
  builder returns the admin-required error exactly when the admin is empty and no-admin
  is false, and the contradiction error exactly when the admin is non-empty and no-admin
  is true. With no-admin alone the message has the empty admin. With an admin alone the
  string is first parsed as an address, whose string form becomes the admin; when that
  fails the string is looked up in the keyring as a key name, a failed lookup is returned
  as the admin error \<^verbatim>\<open>admin ...\<close> wrapping the keyring's error, and the address of the
  key found becomes the admin (an error of the found record's own \<^verbatim>\<open>GetAddress\<close> is
  returned as it is). In every passing case the result is the message after its
  validation.
\<close>

theorem parseInstantiateArgs_admin:
  assumes "strconv_ParseUint rawCodeID = Inr codeID"
    and "GetString flags flagAmount = Inr amountStr"
    and "ParseCoinsNormalized env amountStr = Inr amount"
    and "GetString flags flagLabel = Inr label" and "label \<noteq> ''''"
    and "GetString flags flagAdmin = Inr adminStr"
    and "GetBool flags flagNoAdmin = Inr noAdmin"
  shows
    "(parseInstantiateArgs env rawCodeID initMsg kr sender flags =
        Inl (New ''you must set an admin or explicitly pass --no-admin to make it immutable (wasmd issue #719)'')
      \<longleftrightarrow> adminStr = '''' \<and> \<not> noAdmin)
     \<and> (parseInstantiateArgs env rawCodeID initMsg kr sender flags =
        Inl (New ''you set an admin and passed --no-admin, those cannot both be true'')
      \<longleftrightarrow> adminStr \<noteq> '''' \<and> noAdmin)
     \<and> (adminStr = '''' \<and> noAdmin \<longrightarrow>
          parseInstantiateArgs env rawCodeID initMsg kr sender flags =
            return_ValidateBasic env
              (MsgInstantiateContract sender '''' codeID label initMsg amount))
     \<and> (adminStr \<noteq> '''' \<and> \<not> noAdmin \<longrightarrow>
          (\<forall>addr. AccAddressFromBech32 env adminStr = Inr addr \<longrightarrow>
             parseInstantiateArgs env rawCodeID initMsg kr sender flags =
               return_ValidateBasic env
                 (MsgInstantiateContract sender (AccAddress_String env addr) codeID label
                    initMsg amount))
          \<and> (\<forall>err0. AccAddressFromBech32 env adminStr = Inl err0 \<longrightarrow>
               (\<forall>err. kr adminStr = Inl err \<longrightarrow>
                  parseInstantiateArgs env rawCodeID initMsg kr sender flags =
                    Inl (Errorf ''admin %s'' [E err]))
               \<and> (\<forall>info admin. kr adminStr = Inr info \<and> GetAddress info = Inr admin \<longrightarrow>
                    parseInstantiateArgs env rawCodeID initMsg kr sender flags =
                      return_ValidateBasic env
                        (MsgInstantiateContract sender (AccAddress_String env admin) codeID
                           label initMsg amount))
               \<and> (\<forall>info err. kr adminStr = Inr info \<and> GetAddress info = Inl err \<longrightarrow>
                    parseInstantiateArgs env rawCodeID initMsg kr sender flags =
                      Inl (Callee err))))"
proof -
  have ret: "return_ValidateBasic env m \<noteq> Inl (New t)" for m t
    by (simp add: return_ValidateBasic_def split: option.splits)
  have ret': "Inl (New t) \<noteq> return_ValidateBasic env m" for m t
    using ret[of m t] by metis
  show ?thesis
    unfolding parseInstantiateArgs_def using assms
    by (auto simp: ret ret' Let_def split: sum.splits)
qed


theorem parseInstantiateArgs_admin_witness:
  "parseInstantiateArgs stub_Env ''1'' ''{}'' (Keyring stub_Context) ''wasm1sender''
       [flagAmount \<mapsto> FString '''', flagLabel \<mapsto> FString ''local'',
        flagAdmin \<mapsto> FString '''', flagNoAdmin \<mapsto> FBool True] =
     Inr (MsgInstantiateContract ''wasm1sender'' '''' 1 ''local'' ''{}'' [])
   \<and> parseInstantiateArgs stub_Env ''1'' ''{}'' (Keyring stub_Context) ''wasm1sender''
       [flagAmount \<mapsto> FString '''', flagLabel \<mapsto> FString ''local'',
        flagAdmin \<mapsto> FString '''', flagNoAdmin \<mapsto> FBool False] =
     Inl (New ''you must set an admin or explicitly pass --no-admin to make it immutable (wasmd issue #719)'')
   \<and> parseInstantiateArgs stub_Env ''1'' ''{}'' (Keyring stub_Context) ''wasm1sender''
       [flagAmount \<mapsto> FString '''', flagLabel \<mapsto> FString ''local'',
        flagAdmin \<mapsto> FString ''wasm1admin'', flagNoAdmin \<mapsto> FBool True] =
     Inl (New ''you set an admin and passed --no-admin, those cannot both be true'')
   \<and> parseInstantiateArgs stub_Env ''1'' ''{}'' (Keyring stub_Context) ''wasm1sender''
       [flagAmount \<mapsto> FString '''', flagLabel \<mapsto> FString ''local'',
        flagAdmin \<mapsto> FString ''mykey'', flagNoAdmin \<mapsto> FBool False] =
     Inr (MsgInstantiateContract ''wasm1sender'' ''wasm1keyaddr'' 1 ''local'' ''{}'' [])
   \<and> parseInstantiateArgs stub_Env ''1'' ''{}'' (Keyring stub_Context) ''wasm1sender''
       [flagAmount \<mapsto> FString '''', flagLabel \<mapsto> FString ''local'',
        flagAdmin \<mapsto> FString ''nokey'', flagNoAdmin \<mapsto> FBool False] =
     Inl (Errorf ''admin %s'' [E (Other ''key not found'')])"
proof -
  let ?f = "\<lambda>adminStr noAdmin.
       [flagAmount \<mapsto> FString '''', flagLabel \<mapsto> FString ''local'',
        flagAdmin \<mapsto> FString adminStr, flagNoAdmin \<mapsto> FBool noAdmin]"
  have u: "strconv_ParseUint ''1'' = Inr 1"
    by (simp add: strconv_ParseUint_def)
  have p: "ParseCoinsNormalized stub_Env '''' = Inr []"
    by (simp add: stub_Env_def)
  have l: "''local'' \<noteq> ''''" by simp
  have fa: "GetString (?f a n) flagAmount = Inr ''''"
    and fl: "GetString (?f a n) flagLabel = Inr ''local''"
    and fd: "GetString (?f a n) flagAdmin = Inr a"
    and fn: "GetBool (?f a n) flagNoAdmin = Inr n" for a n
    by (simp_all add: GetString_def GetBool_def)
  note T = parseInstantiateArgs_admin[OF u fa p fl l fd fn,
      where initMsg = "''{}''" and kr = "Keyring stub_Context" and sender = "''wasm1sender''"]
  have v: "return_ValidateBasic stub_Env m = Inr m" for m
    by (simp add: return_ValidateBasic_def stub_Env_def)
  have w1: "parseInstantiateArgs stub_Env ''1'' ''{}'' (Keyring stub_Context) ''wasm1sender''
       (?f '''' True) = Inr (MsgInstantiateContract ''wasm1sender'' '''' 1 ''local'' ''{}'' [])"
    using T[of "''''" True] by (simp add: v)
  have w2: "parseInstantiateArgs stub_Env ''1'' ''{}'' (Keyring stub_Context) ''wasm1sender''
       (?f '''' False) =
     Inl (New ''you must set an admin or explicitly pass --no-admin to make it immutable (wasmd issue #719)'')"
    using T[of "''''" False] by simp
  have w3: "parseInstantiateArgs stub_Env ''1'' ''{}'' (Keyring stub_Context) ''wasm1sender''
       (?f ''wasm1admin'' True) =
     Inl (New ''you set an admin and passed --no-admin, those cannot both be true'')"
    using T[of "''wasm1admin''" True] by simp
  have b4: "AccAddressFromBech32 stub_Env ''mykey'' = Inl (Other ''decoding bech32 failed'')"
    and b5: "AccAddressFromBech32 stub_Env ''nokey'' = Inl (Other ''decoding bech32 failed'')"
    and s4: "AccAddress_String stub_Env ''keyaddr'' = ''wasm1keyaddr''"
    by (simp_all add: stub_Env_def)
  have k4: "Keyring stub_Context ''mykey'' = Inr (Record (Inr ''keyaddr''))"
    and k5: "Keyring stub_Context ''nokey'' = Inl (Other ''key not found'')"
    by (simp_all add: stub_Context_def)
  have w4: "parseInstantiateArgs stub_Env ''1'' ''{}'' (Keyring stub_Context) ''wasm1sender''
       (?f ''mykey'' False) =
     Inr (MsgInstantiateContract ''wasm1sender'' ''wasm1keyaddr'' 1 ''local'' ''{}'' [])"
    using T[of "''mykey''" False] b4 k4 by (simp add: v s4)
  have w5: "parseInstantiateArgs stub_Env ''1'' ''{}'' (Keyring stub_Context) ''wasm1sender''
       (?f ''nokey'' False) = Inl (Errorf ''admin %s'' [E (Other ''key not found'')])"
    using T[of "''nokey''" False] b5 k5 by simp
  from w1 w2 w3 w4 w5 show ?thesis by simp
qed

section \<open>Permission encoder\<close>

lemma parseAccessConfigFlags_loop_ok:
  "map (AccAddressFromBech32 env) vs = map Inr accepted \<Longrightarrow>
   parseAccessConfigFlags_loop env (length done) vs (done @ replicate (length vs) z) =
     Inr (done @ accepted)"
proof (induction vs arbitrary: "done" accepted)
  case Nil
  then show ?case by simp
next
  case (Cons v vs)
  from Cons.prems obtain a rest where acc: "accepted = a # rest"
    and a: "AccAddressFromBech32 env v = Inr a"
    and rest: "map (AccAddressFromBech32 env) vs = map Inr rest"
    by (cases accepted) auto
  have "(done @ replicate (length (v # vs)) z)[length done := a]
          = (done @ [a]) @ replicate (length vs) z"
    by (simp add: list_update_append)
  then show ?case
    using Cons.IH[OF rest, of "done @ [a]"] a acc by simp
qed

lemma parseAccessConfigFlags_loop_fail:
  "i < length vs \<Longrightarrow> AccAddressFromBech32 env (vs ! i) = Inl err \<Longrightarrow>
   (\<forall>j<i. \<exists>a. AccAddressFromBech32 env (vs ! j) = Inr a) \<Longrightarrow>
   parseAccessConfigFlags_loop env k vs acceptedAddrs =
     Inl (Errorf ''parse %q: %w'' [Q (vs ! i), E err])"
proof (induction vs arbitrary: i k acceptedAddrs)
  case Nil
  then show ?case by simp
next
  case (Cons v vs)
  show ?case
  proof (cases i)
    case 0
    with Cons.prems show ?thesis by simp
  next
    case (Suc n)
    from Cons.prems(3) Suc obtain a where a: "AccAddressFromBech32 env v = Inr a"
      by fastforce
    have "\<forall>j<n. \<exists>a. AccAddressFromBech32 env (vs ! j) = Inr a"
      using Cons.prems(3) Suc by fastforce
    with Cons.IH[of n "Suc k" "acceptedAddrs[k := a]"] Cons.prems(1,2) Suc a
    show ?thesis by simp
  qed
qed

text \<open>
  Claim C5. With the four permission flags read, the encoder follows this precedence.
  A non-empty any-of-addresses list: when every entry parses as an address the result is
  the any-of-addresses permission over the parsed addresses, in order; otherwise the
  error names the first entry that does not parse. Otherwise a non-empty deprecated
  single-address flag always gives the removed-flag error. Otherwise an everybody flag
  that parses as true gives Everybody. Otherwise (everybody empty or false) a nobody
  flag that parses as true gives Nobody. Otherwise (nobody empty or false) the result is
  nil. A non-empty everybody or nobody flag that is reached and does not parse as a
  boolean gives the parse error naming that flag.
\<close>

theorem parseAccessConfigFlags_precedence:
  assumes "GetStringSlice flags flagInstantiateByAnyOfAddress = Inr addrs"
    and "GetString flags flagInstantiateByAddress = Inr onlyAddrStr"
    and "GetString flags flagInstantiateByEverybody = Inr everybodyStr"
    and "GetString flags flagInstantiateNobody = Inr nobodyStr"
  shows
    "(addrs \<noteq> [] \<longrightarrow>
        (\<forall>accepted. map (AccAddressFromBech32 env) addrs = map Inr accepted \<longrightarrow>
           parseAccessConfigFlags env flags =
             Inr (Some (AccessTypeAnyOfAddresses_With accepted)))
        \<and> (\<forall>i err. i < length addrs \<and> AccAddressFromBech32 env (addrs ! i) = Inl err
              \<and> (\<forall>j<i. \<exists>a. AccAddressFromBech32 env (addrs ! j) = Inr a) \<longrightarrow>
           parseAccessConfigFlags env flags =
             Inl (Errorf ''parse %q: %w'' [Q (addrs ! i), E err])))
     \<and> (addrs = [] \<and> onlyAddrStr \<noteq> '''' \<longrightarrow>
          parseAccessConfigFlags env flags =
            Inl (Errorf ''not supported anymore. Use: %s'' [S flagInstantiateByAnyOfAddress]))
     \<and> (addrs = [] \<and> onlyAddrStr = '''' \<and> everybodyStr \<noteq> ''''
          \<and> strconv_ParseBool everybodyStr = Inr True \<longrightarrow>
          parseAccessConfigFlags env flags = Inr (Some AllowEverybody))
     \<and> (\<forall>err. addrs = [] \<and> onlyAddrStr = '''' \<and> everybodyStr \<noteq> ''''
          \<and> strconv_ParseBool everybodyStr = Inl err \<longrightarrow>
          parseAccessConfigFlags env flags =
            Inl (Errorf ''boolean value expected for instantiate by everybody: %s'' [E err]))
     \<and> (addrs = [] \<and> onlyAddrStr = ''''
          \<and> (everybodyStr = '''' \<or> strconv_ParseBool everybodyStr = Inr False)
          \<and> nobodyStr \<noteq> '''' \<and> strconv_ParseBool nobodyStr = Inr True \<longrightarrow>
          parseAccessConfigFlags env flags = Inr (Some AllowNobody))
     \<and> (\<forall>err. addrs = [] \<and> onlyAddrStr = ''''
          \<and> (everybodyStr = '''' \<or> strconv_ParseBool everybodyStr = Inr False)
          \<and> nobodyStr \<noteq> '''' \<and> strconv_ParseBool nobodyStr = Inl err \<longrightarrow>
          parseAccessConfigFlags env flags =
            Inl (Errorf ''boolean value expected for instantiate by nobody: %s'' [E err]))
     \<and> (addrs = [] \<and> onlyAddrStr = ''''
          \<and> (everybodyStr = '''' \<or> strconv_ParseBool everybodyStr = Inr False)
          \<and> (nobodyStr = '''' \<or> strconv_ParseBool nobodyStr = Inr False) \<longrightarrow>
          parseAccessConfigFlags env flags = Inr None)"
proof -
  have ok: "parseAccessConfigFlags_loop env 0 addrs (replicate (length addrs) []) = Inr accepted"
    if "map (AccAddressFromBech32 env) addrs = map Inr accepted" for accepted
    using parseAccessConfigFlags_loop_ok[OF that, of "[]" "[]"] by simp
  have fail: "parseAccessConfigFlags_loop env 0 addrs (replicate (length addrs) []) =
      Inl (Errorf ''parse %q: %w'' [Q (addrs ! i), E err])"
    if "i < length addrs" "AccAddressFromBech32 env (addrs ! i) = Inl err"
       "\<forall>j<i. \<exists>a. AccAddressFromBech32 env (addrs ! j) = Inr a" for i err
    using parseAccessConfigFlags_loop_fail[OF that] .
  have any: "addrs \<noteq> [] \<longrightarrow>
        (\<forall>accepted. map (AccAddressFromBech32 env) addrs = map Inr accepted \<longrightarrow>
           parseAccessConfigFlags env flags =
             Inr (Some (AccessTypeAnyOfAddresses_With accepted)))
        \<and> (\<forall>i err. i < length addrs \<and> AccAddressFromBech32 env (addrs ! i) = Inl err
              \<and> (\<forall>j<i. \<exists>a. AccAddressFromBech32 env (addrs ! j) = Inr a) \<longrightarrow>
           parseAccessConfigFlags env flags =
             Inl (Errorf ''parse %q: %w'' [Q (addrs ! i), E err]))"
    unfolding parseAccessConfigFlags_def using assms(1) by (auto simp: ok fail)
  have rest: "addrs = [] \<Longrightarrow> parseAccessConfigFlags env flags =
     (if onlyAddrStr \<noteq> '''' then
       Inl (Errorf ''not supported anymore. Use: %s'' [S flagInstantiateByAnyOfAddress])
     else
     (case (if everybodyStr \<noteq> '''' then strconv_ParseBool everybodyStr else Inr False) of
        Inl err \<Rightarrow>
          Inl (Errorf ''boolean value expected for instantiate by everybody: %s'' [E err])
      | Inr ok \<Rightarrow>
     if ok then Inr (Some AllowEverybody)
     else
     (case (if nobodyStr \<noteq> '''' then strconv_ParseBool nobodyStr else Inr False) of
        Inl err \<Rightarrow>
          Inl (Errorf ''boolean value expected for instantiate by nobody: %s'' [E err])
      | Inr ok \<Rightarrow>
     if ok then Inr (Some AllowNobody)
     else Inr None)))"
    unfolding parseAccessConfigFlags_def using assms by (simp split: sum.splits)
  show ?thesis
    using any rest by (cases "addrs = []") auto
qed


theorem parseAccessConfigFlags_precedence_witness:
  "parseAccessConfigFlags stub_Env
       [flagInstantiateByEverybody \<mapsto> FString ''true'', flagInstantiateNobody \<mapsto> FString '''',
        flagInstantiateByAddress \<mapsto> FString '''',
        flagInstantiateByAnyOfAddress \<mapsto> FStringSlice [''wasm1alice'', ''wasm1bob'']] =
     Inr (Some (AccessTypeAnyOfAddresses_With [''alice'', ''bob'']))
   \<and> parseAccessConfigFlags stub_Env
       [flagInstantiateByEverybody \<mapsto> FString '''', flagInstantiateNobody \<mapsto> FString '''',
        flagInstantiateByAddress \<mapsto> FString '''',
        flagInstantiateByAnyOfAddress \<mapsto> FStringSlice [''wasm1alice'', ''bob'']] =
     Inl (Errorf ''parse %q: %w'' [Q ''bob'', E (Other ''decoding bech32 failed'')])
   \<and> parseAccessConfigFlags stub_Env
       [flagInstantiateByEverybody \<mapsto> FString ''true'', flagInstantiateNobody \<mapsto> FString '''',
        flagInstantiateByAddress \<mapsto> FString ''wasm1alice'',
        flagInstantiateByAnyOfAddress \<mapsto> FStringSlice []] =
     Inl (Errorf ''not supported anymore. Use: %s'' [S flagInstantiateByAnyOfAddress])
   \<and> parseAccessConfigFlags stub_Env
       [flagInstantiateByEverybody \<mapsto> FString ''true'', flagInstantiateNobody \<mapsto> FString ''true'',
        flagInstantiateByAddress \<mapsto> FString '''',
        flagInstantiateByAnyOfAddress \<mapsto> FStringSlice []] =
     Inr (Some AllowEverybody)
   \<and> parseAccessConfigFlags stub_Env
       [flagInstantiateByEverybody \<mapsto> FString ''false'', flagInstantiateNobody \<mapsto> FString ''1'',
        flagInstantiateByAddress \<mapsto> FString '''',
        flagInstantiateByAnyOfAddress \<mapsto> FStringSlice []] =
     Inr (Some AllowNobody)
   \<and> parseAccessConfigFlags stub_Env
       [flagInstantiateByEverybody \<mapsto> FString '''', flagInstantiateNobody \<mapsto> FString ''maybe'',
        flagInstantiateByAddress \<mapsto> FString '''',
        flagInstantiateByAnyOfAddress \<mapsto> FStringSlice []] =
     Inl (Errorf ''boolean value expected for instantiate by nobody: %s''
            [E (NumError ''ParseBool'' ''maybe'' ErrSyntax)])
   \<and> parseAccessConfigFlags stub_Env
       [flagInstantiateByEverybody \<mapsto> FString '''', flagInstantiateNobody \<mapsto> FString '''',
        flagInstantiateByAddress \<mapsto> FString '''',
        flagInstantiateByAnyOfAddress \<mapsto> FStringSlice []] =
     Inr None"
proof -
  let ?f = "\<lambda>e n only addrs.
       [flagInstantiateByEverybody \<mapsto> FString e, flagInstantiateNobody \<mapsto> FString n,
        flagInstantiateByAddress \<mapsto> FString only,
        flagInstantiateByAnyOfAddress \<mapsto> FStringSlice addrs]"
  have fa: "GetStringSlice (?f e n only addrs) flagInstantiateByAnyOfAddress = Inr addrs"
    and fo: "GetString (?f e n only addrs) flagInstantiateByAddress = Inr only"
    and fe: "GetString (?f e n only addrs) flagInstantiateByEverybody = Inr e"
    and fn: "GetString (?f e n only addrs) flagInstantiateNobody = Inr n" for e n only addrs
    by (simp_all add: GetString_def GetStringSlice_def)
  have alice: "AccAddressFromBech32 stub_Env ''wasm1alice'' = Inr ''alice''"
    and bob: "AccAddressFromBech32 stub_Env ''wasm1bob'' = Inr ''bob''"
    and bad: "AccAddressFromBech32 stub_Env ''bob'' = Inl (Other ''decoding bech32 failed'')"
    by (simp_all add: stub_Env_def)
  have pt: "strconv_ParseBool ''true'' = Inr True"
    and pf: "strconv_ParseBool ''false'' = Inr False"
    and p1: "strconv_ParseBool ''1'' = Inr True"
    and pm: "strconv_ParseBool ''maybe'' = Inl (NumError ''ParseBool'' ''maybe'' ErrSyntax)"
    by (simp_all add: strconv_ParseBool_def)
  have w1: "parseAccessConfigFlags stub_Env (?f ''true'' '''' '''' [''wasm1alice'', ''wasm1bob'']) =
     Inr (Some (AccessTypeAnyOfAddresses_With [''alice'', ''bob'']))"
  proof -
    from parseAccessConfigFlags_precedence[OF fa[of "''true''" "''''" "''''" "[''wasm1alice'', ''wasm1bob'']"] fo[of "''true''" "''''" "''''" "[''wasm1alice'', ''wasm1bob'']"]
             fe[of "''true''" "''''" "''''" "[''wasm1alice'', ''wasm1bob'']"] fn[of "''true''" "''''" "''''" "[''wasm1alice'', ''wasm1bob'']"],
             where env = stub_Env]
    have "\<forall>accepted. map (AccAddressFromBech32 stub_Env) [''wasm1alice'', ''wasm1bob''] =
              map Inr accepted \<longrightarrow>
            parseAccessConfigFlags stub_Env (?f ''true'' '''' '''' [''wasm1alice'', ''wasm1bob'']) =
              Inr (Some (AccessTypeAnyOfAddresses_With accepted))"
      by simp
    from this[rule_format, of "[''alice'', ''bob'']"] show ?thesis
      by (simp add: alice bob)
  qed
  have w2: "parseAccessConfigFlags stub_Env (?f '''' '''' '''' [''wasm1alice'', ''bob'']) =
     Inl (Errorf ''parse %q: %w'' [Q ''bob'', E (Other ''decoding bech32 failed'')])"
  proof -
    from parseAccessConfigFlags_precedence[OF fa[of "''''" "''''" "''''" "[''wasm1alice'', ''bob'']"] fo[of "''''" "''''" "''''" "[''wasm1alice'', ''bob'']"]
             fe[of "''''" "''''" "''''" "[''wasm1alice'', ''bob'']"] fn[of "''''" "''''" "''''" "[''wasm1alice'', ''bob'']"],
             where env = stub_Env]
    have "\<forall>i err. i < length [''wasm1alice'', ''bob'']
            \<and> AccAddressFromBech32 stub_Env ([''wasm1alice'', ''bob''] ! i) = Inl err
            \<and> (\<forall>j<i. \<exists>a. AccAddressFromBech32 stub_Env ([''wasm1alice'', ''bob''] ! j) = Inr a)
          \<longrightarrow> parseAccessConfigFlags stub_Env (?f '''' '''' '''' [''wasm1alice'', ''bob'']) =
              Inl (Errorf ''parse %q: %w'' [Q ([''wasm1alice'', ''bob''] ! i), E err])"
      by simp
    from this[rule_format, of "Suc 0" "Other ''decoding bech32 failed''"] show ?thesis
      by (simp add: alice bad)
  qed
  have w3: "parseAccessConfigFlags stub_Env (?f ''true'' '''' ''wasm1alice'' []) =
     Inl (Errorf ''not supported anymore. Use: %s'' [S flagInstantiateByAnyOfAddress])"
    using parseAccessConfigFlags_precedence[OF fa[of "''true''" "''''" "''wasm1alice''" "[]"] fo[of "''true''" "''''" "''wasm1alice''" "[]"]
             fe[of "''true''" "''''" "''wasm1alice''" "[]"] fn[of "''true''" "''''" "''wasm1alice''" "[]"],
             where env = stub_Env]
    by simp
  have w4: "parseAccessConfigFlags stub_Env (?f ''true'' ''true'' '''' []) =
     Inr (Some AllowEverybody)"
    using parseAccessConfigFlags_precedence[OF fa[of "''true''" "''true''" "''''" "[]"] fo[of "''true''" "''true''" "''''" "[]"]
             fe[of "''true''" "''true''" "''''" "[]"] fn[of "''true''" "''true''" "''''" "[]"],
             where env = stub_Env] pt
    by simp
  have w5: "parseAccessConfigFlags stub_Env (?f ''false'' ''1'' '''' []) =
     Inr (Some AllowNobody)"
    using parseAccessConfigFlags_precedence[OF fa[of "''false''" "''1''" "''''" "[]"] fo[of "''false''" "''1''" "''''" "[]"]
             fe[of "''false''" "''1''" "''''" "[]"] fn[of "''false''" "''1''" "''''" "[]"],
             where env = stub_Env] pf p1
    by simp
  have w6: "parseAccessConfigFlags stub_Env (?f '''' ''maybe'' '''' []) =
     Inl (Errorf ''boolean value expected for instantiate by nobody: %s''
            [E (NumError ''ParseBool'' ''maybe'' ErrSyntax)])"
    using parseAccessConfigFlags_precedence[OF fa[of "''''" "''maybe''" "''''" "[]"] fo[of "''''" "''maybe''" "''''" "[]"]
             fe[of "''''" "''maybe''" "''''" "[]"] fn[of "''''" "''maybe''" "''''" "[]"],
             where env = stub_Env] pm
    by simp
  have w7: "parseAccessConfigFlags stub_Env (?f '''' '''' '''' []) = Inr None"
    using parseAccessConfigFlags_precedence[OF fa[of "''''" "''''" "''''" "[]"] fo[of "''''" "''''" "''''" "[]"]
             fe[of "''''" "''''" "''''" "[]"] fn[of "''''" "''''" "''''" "[]"],
             where env = stub_Env]
    by simp
  from w1 w2 w3 w4 w5 w6 w7 show ?thesis by simp
qed

end
